theory Spec2Isabelle
  imports Main "HOL-Library.Word" "HOL-Library.Signed_Division"
begin

unbundle bit_operations_syntax

section \<open>Tuning engine of the ESWIN SDHCI-SDIO host driver\<close>

text \<open>
  The theory embeds the software tuning code of
  \<^verbatim>\<open>drivers/mmc/host/sdhci-of-eswin-sdio.c\<close>: the delay-line programming sequence
  (\<^verbatim>\<open>eswin_sdhci_sdio_config_phy_delay\<close>), the delay-code scanner
  (\<^verbatim>\<open>eswin_sdhci_sdio_delay_tuning\<close>), the phase-code scanner
  (\<^verbatim>\<open>eswin_sdhci_sdio_phase_code_tuning\<close>) and the orchestrator
  (\<^verbatim>\<open>eswin_sdhci_sdio_executing_tuning\<close>).

  Every call the C code makes into the SDHCI framework (register accessors, card-clock
  gate, tuning command, reset callback, delays, log lines) is recorded, in program order,
  as an event of a trace. The C \<^verbatim>\<open>int\<close> variables are HOL integers: all values the
  scanners compute lie between \<open>-1\<close> and twice the largest code, and the code ranges are
  small header constants, so no 32-bit arithmetic wraps. Division is C's, truncating
  towards zero (\<open>sdiv\<close>). The values that reach a register are truncated to the width of
  the accessor (\<^verbatim>\<open>sdhci_writeb\<close>: 8 bits, \<^verbatim>\<open>sdhci_writew\<close>: 16 bits).
\<close>

subsection \<open>Constants, configuration and events\<close>

text \<open>
  The macros below are used by the code but defined in headers outside the source file
  (\<^verbatim>\<open>sdhci-eswin.h\<close>, \<^verbatim>\<open>sdhci.h\<close>, \<^verbatim>\<open>errno-base.h\<close>); they are parameters of the model.
\<close>

record macros =
  PHY_DELAY_CODE_MAX :: int
  MAX_PHASE_CODE :: int
  PHY_CLK_MAX_DELAY_MASK :: int
  PHY_UPDATE_DELAY_CODE :: "8 word"
  SDHCI_CTRL_TUNED_CLK :: "32 word"
  SW_TUNE_ENABLE :: "32 word"
  EIO :: int

text \<open>\<^verbatim>\<open>#define DELAY_RANGE_THRESHOLD 20\<close>\<close>

definition DELAY_RANGE_THRESHOLD :: int where
  "DELAY_RANGE_THRESHOLD = 20"

text \<open>
  What the tuning code reads from the host: the device-tree configuration
  (\<^verbatim>\<open>phy.delay_code\<close>, \<^verbatim>\<open>struct eswin_sdio_private\<close>) and the two registers the
  orchestrator reads back (\<^verbatim>\<open>SDHCI_HOST_CONTROL2\<close> through \<^verbatim>\<open>sdhci_readw\<close>,
  \<^verbatim>\<open>VENDOR_AT_CTRL_R\<close> through \<^verbatim>\<open>sdhci_readl\<close>).
\<close>

record host =
  delay_code :: int
  phase_code :: int
  enable_sw_tuning :: "32 word"
  host_control2 :: "16 word"
  at_ctrl :: "32 word"

datatype reg =
  PHY_SDCLKDL_CNFG_R | PHY_SDCLKDL_DC_R | VENDOR_AT_SATA_R | VENDOR_AT_CTRL_R
  | SDHCI_HOST_CONTROL2 | SDHCI_CMD_DATA

text \<open>
  \<open>SendTuning r\<close> is one call of \<^verbatim>\<open>mmc_send_tuning\<close> that returned \<open>r\<close>;
  \<open>OpsReset\<close> is \<^verbatim>\<open>host->ops->reset(host, SDHCI_RESET_CMD | SDHCI_RESET_DATA)\<close>;
  \<open>PrErr\<close> and \<open>PrInfo v\<close> are the \<^verbatim>\<open>pr_err\<close> and \<^verbatim>\<open>pr_info\<close> lines, the latter
  with the code it prints.
\<close>

datatype event =
  DisableCardClk
  | EnableCardClk
  | WriteB reg "8 word"
  | WriteW reg "16 word"
  | ReadW reg
  | ReadL reg
  | SendTuning int
  | OpsReset
  | Udelay nat
  | PrErr
  | PrInfo int

text \<open>Loop control of a \<^verbatim>\<open>for\<close> body: \<^verbatim>\<open>break\<close>, or go on to the increment.\<close>

datatype flow = Break | Continue

text \<open>What a function returns: its \<^verbatim>\<open>int\<close> status and the events it issued. The status
  is \<open>None\<close> when the C function returns a variable that was never assigned.\<close>

record outcome =
  status :: "int option"
  events :: "event list"

subsection \<open>Delay-line driver\<close>

text \<open>\<^verbatim>\<open>eswin_sdhci_sdio_config_phy_delay\<close>: mask the code, then arm, write, disarm.\<close>

definition config_phy_delay :: "macros \<Rightarrow> int \<Rightarrow> event list" where
  "config_phy_delay c d =
     (let d' = d AND PHY_CLK_MAX_DELAY_MASK c
      in [WriteB PHY_SDCLKDL_CNFG_R (PHY_UPDATE_DELAY_CODE c),
          WriteB PHY_SDCLKDL_DC_R (word_of_int d'),
          WriteB PHY_SDCLKDL_CNFG_R 0])"

subsection \<open>Delay-code scanner\<close>

text \<open>The local variables of \<^verbatim>\<open>eswin_sdhci_sdio_delay_tuning\<close>, and the trace so far.
  \<open>ret\<close> is declared without a value, hence \<open>None\<close> until the first tuning command.\<close>

record dscan =
  ret :: "int option"
  delay :: int
  delay_min :: int
  delay_max :: int
  delay_range :: int
  dtrace :: "event list"

text \<open>One pass through the body of the \<^verbatim>\<open>for\<close> loop at index \<open>i\<close>. The tuning command's
  result at the \<open>i\<close>-th iteration is \<open>tune i\<close>.\<close>

definition delay_body :: "macros \<Rightarrow> (int \<Rightarrow> int) \<Rightarrow> int \<Rightarrow> dscan \<Rightarrow> flow \<times> dscan" where
  "delay_body c tune i s =
     (let r = tune i;
          s1 = s\<lparr>ret := Some r,
                 dtrace := dtrace s @ [DisableCardClk] @ config_phy_delay c i
                            @ [EnableCardClk, SendTuning r]\<rparr>
      in if r \<noteq> 0 then
           (let s2 = s1\<lparr>dtrace := dtrace s1 @ [OpsReset, Udelay 200]\<rparr>
            in if delay_min s2 \<noteq> -1 \<and> delay_max s2 \<noteq> -1 then
                 (if delay_max s2 - delay_min s2 > delay_range s2 then
                    (let s3 = s2\<lparr>delay_range := delay_max s2 - delay_min s2,
                                 delay := (delay_min s2 + delay_max s2) sdiv 2\<rparr>
                     in if delay_range s3 > DELAY_RANGE_THRESHOLD then (Break, s3)
                        else (Continue, s3\<lparr>delay_min := -1, delay_max := -1\<rparr>))
                  else (Continue, s2\<lparr>delay_min := -1, delay_max := -1\<rparr>))
               else (Continue, s2))
         else if delay_min s1 = -1 then (Continue, s1\<lparr>delay_min := i\<rparr>)
         else (Continue, s1\<lparr>delay_max := i\<rparr>))"

text \<open>\<^verbatim>\<open>for (i = 0; i <= PHY_DELAY_CODE_MAX; i++)\<close>, entered at index \<open>i\<close>.\<close>

function delay_loop :: "macros \<Rightarrow> (int \<Rightarrow> int) \<Rightarrow> int \<Rightarrow> dscan \<Rightarrow> dscan" where
  "delay_loop c tune i s =
     (if i \<le> PHY_DELAY_CODE_MAX c then
        (case delay_body c tune i s of
           (Break, s') \<Rightarrow> s'
         | (Continue, s') \<Rightarrow> delay_loop c tune (i + 1) s')
      else s)"
  by pat_completeness auto
termination
  by (relation "measure (\<lambda>(c, tune, i, s). nat (PHY_DELAY_CODE_MAX c + 1 - i))") auto

definition dscan_init :: dscan where
  "dscan_init = \<lparr>ret = None, delay = -1, delay_min = -1, delay_max = -1,
                 delay_range = -1, dtrace = []\<rparr>"

definition delay_tuning :: "macros \<Rightarrow> host \<Rightarrow> (int \<Rightarrow> int) \<Rightarrow> outcome" where
  "delay_tuning c h tune =
     (let s = delay_loop c tune 0 dscan_init
      in if delay s = -1 then
           \<lparr>status = ret s,
            events = dtrace s @ [PrErr] @ [DisableCardClk]
                     @ config_phy_delay c (delay_code h) @ [EnableCardClk]\<rparr>
         else
           \<lparr>status = Some 0,
            events = dtrace s @ [PrInfo (delay s)] @ [DisableCardClk]
                     @ config_phy_delay c (delay s) @ [EnableCardClk]\<rparr>)"

subsection \<open>Phase-code scanner\<close>

text \<open>The local variables of \<^verbatim>\<open>eswin_sdhci_sdio_phase_code_tuning\<close> that outlive an
  iteration, and the trace so far.\<close>

record pscan =
  code_min :: int
  code_max :: int
  ptrace :: "event list"

definition phase_body :: "(int \<Rightarrow> int) \<Rightarrow> int \<Rightarrow> pscan \<Rightarrow> flow \<times> pscan" where
  "phase_body tune pc s =
     (let r = tune pc;
          s1 = s\<lparr>ptrace := ptrace s @ [DisableCardClk,
                                        WriteW VENDOR_AT_SATA_R (word_of_int pc),
                                        EnableCardClk, SendTuning r]\<rparr>
      in if r \<noteq> 0 then
           (let s2 = s1\<lparr>ptrace := ptrace s1 @ [OpsReset, Udelay 200]\<rparr>
            in if code_min s2 \<noteq> -1 \<and> code_max s2 \<noteq> -1 then (Break, s2)
               else (Continue, s2))
         else if code_min s1 = -1 then (Continue, s1\<lparr>code_min := pc\<rparr>)
         else (Continue, s1\<lparr>code_max := pc\<rparr>))"

text \<open>\<^verbatim>\<open>for (phase_code = 0; phase_code <= MAX_PHASE_CODE; phase_code++)\<close>, entered at
  index \<open>pc\<close>.\<close>

function phase_loop :: "macros \<Rightarrow> (int \<Rightarrow> int) \<Rightarrow> int \<Rightarrow> pscan \<Rightarrow> pscan" where
  "phase_loop c tune pc s =
     (if pc \<le> MAX_PHASE_CODE c then
        (case phase_body tune pc s of
           (Break, s') \<Rightarrow> s'
         | (Continue, s') \<Rightarrow> phase_loop c tune (pc + 1) s')
      else s)"
  by pat_completeness auto
termination
  by (relation "measure (\<lambda>(c, tune, pc, s). nat (MAX_PHASE_CODE c + 1 - pc))") auto

definition pscan_init :: pscan where
  "pscan_init = \<lparr>code_min = -1, code_max = -1, ptrace = []\<rparr>"

definition phase_code_tuning :: "macros \<Rightarrow> (int \<Rightarrow> int) \<Rightarrow> outcome" where
  "phase_code_tuning c tune =
     (let s = phase_loop c tune 0 pscan_init
      in if code_min s = -1 \<and> code_max s = -1 then
           \<lparr>status = Some (- EIO c),
            events = ptrace s @ [PrErr, DisableCardClk, WriteW VENDOR_AT_SATA_R 0,
                                 EnableCardClk]\<rparr>
         else
           (let pc = (code_min s + code_max s) sdiv 2
            in \<lparr>status = Some 0,
                events = ptrace s @ [PrInfo pc, DisableCardClk,
                                     WriteW VENDOR_AT_SATA_R (word_of_int pc),
                                     EnableCardClk]\<rparr>))"

subsection \<open>Tuning orchestrator\<close>

text \<open>The register sequence of the software-tuning path that precedes the two scans
  (from \<^verbatim>\<open>eswin_sdhci_disable_card_clk\<close> down to the write of \<^verbatim>\<open>SDHCI_CMD_DATA\<close>).
  \<open>ctrl\<close> and \<open>val\<close> are \<^verbatim>\<open>u32\<close>; \<^verbatim>\<open>sdhci_writew\<close> keeps their low 16 bits.\<close>

definition sw_tuning_setup :: "macros \<Rightarrow> host \<Rightarrow> event list" where
  "sw_tuning_setup c h =
     (let ctrl = (ucast (host_control2 h) :: 32 word) AND NOT (SDHCI_CTRL_TUNED_CLK c);
          val = at_ctrl h OR SW_TUNE_ENABLE c
      in [DisableCardClk,
          ReadW SDHCI_HOST_CONTROL2, WriteW SDHCI_HOST_CONTROL2 (ucast ctrl),
          ReadL VENDOR_AT_CTRL_R, WriteW VENDOR_AT_CTRL_R (ucast val),
          WriteW VENDOR_AT_SATA_R 0,
          EnableCardClk,
          WriteW SDHCI_CMD_DATA 0])"

text \<open>\<^verbatim>\<open>eswin_sdhci_sdio_executing_tuning\<close>. \<open>dtune\<close> gives the results of the tuning
  commands issued by the delay scan, \<open>ptune\<close> of those issued by the phase scan.\<close>

definition executing_tuning ::
  "macros \<Rightarrow> host \<Rightarrow> (int \<Rightarrow> int) \<Rightarrow> (int \<Rightarrow> int) \<Rightarrow> outcome" where
  "executing_tuning c h dtune ptune =
     (if enable_sw_tuning h = 0 then
        (if phase_code h \<noteq> -1 then
           \<lparr>status = Some 0,
            events = [DisableCardClk, WriteW VENDOR_AT_SATA_R (word_of_int (phase_code h)),
                      EnableCardClk]\<rparr>
         else \<lparr>status = Some 0, events = []\<rparr>)
      else
        (let pre = sw_tuning_setup c h;
             d = delay_tuning c h dtune
         in case status d of
              None \<Rightarrow> \<lparr>status = None, events = pre @ events d\<rparr>
            | Some r \<Rightarrow>
                if r < 0 then \<lparr>status = Some r, events = pre @ events d\<rparr>
                else
                  (let p = phase_code_tuning c ptune
                   in case status p of
                        None \<Rightarrow> \<lparr>status = None, events = pre @ events d @ events p\<rparr>
                      | Some r' \<Rightarrow>
                          if r' < 0 then \<lparr>status = Some r', events = pre @ events d @ events p\<rparr>
                          else \<lparr>status = Some 0, events = pre @ events d @ events p\<rparr>)))"


subsection \<open>Vocabulary of the properties\<close>

text \<open>The events of one iteration of the delay loop at index \<open>i\<close>, of the iterations
  \<open>lo, \<dots>, hi\<close>, and of one gated programming of the delay line.\<close>

definition delay_probe :: "macros \<Rightarrow> (int \<Rightarrow> int) \<Rightarrow> int \<Rightarrow> event list" where
  "delay_probe c tune i =
     [DisableCardClk] @ config_phy_delay c i @ [EnableCardClk, SendTuning (tune i)]
     @ (if tune i \<noteq> 0 then [OpsReset, Udelay 200] else [])"

definition delay_probes :: "macros \<Rightarrow> (int \<Rightarrow> int) \<Rightarrow> int \<Rightarrow> int \<Rightarrow> event list" where
  "delay_probes c tune lo hi = concat (map (delay_probe c tune) [lo..hi])"

definition set_delay :: "macros \<Rightarrow> int \<Rightarrow> event list" where
  "set_delay c d = [DisableCardClk] @ config_phy_delay c d @ [EnableCardClk]"

text \<open>The same for the phase loop and the phase register.\<close>

definition phase_probe :: "(int \<Rightarrow> int) \<Rightarrow> int \<Rightarrow> event list" where
  "phase_probe tune pc =
     [DisableCardClk, WriteW VENDOR_AT_SATA_R (word_of_int pc), EnableCardClk,
      SendTuning (tune pc)]
     @ (if tune pc \<noteq> 0 then [OpsReset, Udelay 200] else [])"

definition phase_probes :: "(int \<Rightarrow> int) \<Rightarrow> int \<Rightarrow> int \<Rightarrow> event list" where
  "phase_probes tune lo hi = concat (map (phase_probe tune) [lo..hi])"

definition set_phase :: "int \<Rightarrow> event list" where
  "set_phase v = [DisableCardClk, WriteW VENDOR_AT_SATA_R (word_of_int v), EnableCardClk]"

text \<open>What holds of the delay scanner's variables whenever the loop is about to run
  index \<open>i\<close>: an open window starts at a code already scanned, and no window wider than
  the threshold has been recorded (the loop would have been left).\<close>

definition dscan_ok :: "int \<Rightarrow> dscan \<Rightarrow> bool" where
  "dscan_ok i s \<longleftrightarrow>
     (delay_min s = -1 \<and> delay_max s = -1
      \<or> 0 \<le> delay_min s \<and> delay_min s < i \<and> (delay_max s = -1 \<or> 0 \<le> delay_max s))
     \<and> delay_range s \<le> 20"

text \<open>Clock gating, read off a trace. The registers of the delay line and the phase
  register are the tuning registers. \<open>clk_run g es\<close> runs the trace \<open>es\<close> from the gate
  state \<open>g\<close> (\<open>True\<close>: the card clock is disabled) and returns the final gate state, or
  \<open>None\<close> as soon as a tuning register is written while the card clock is enabled. A
  trace is \<open>clock_gated\<close> when, entered with the clock running, it writes tuning registers
  only between a disable and the next enable, and leaves the clock running.\<close>

fun tuning_reg :: "reg \<Rightarrow> bool" where
  "tuning_reg PHY_SDCLKDL_CNFG_R = True"
| "tuning_reg PHY_SDCLKDL_DC_R = True"
| "tuning_reg VENDOR_AT_SATA_R = True"
| "tuning_reg VENDOR_AT_CTRL_R = False"
| "tuning_reg SDHCI_HOST_CONTROL2 = False"
| "tuning_reg SDHCI_CMD_DATA = False"

fun clk_step :: "bool \<Rightarrow> event \<Rightarrow> bool option" where
  "clk_step g DisableCardClk = Some True"
| "clk_step g EnableCardClk = Some False"
| "clk_step g (WriteB r v) = (if tuning_reg r \<and> \<not> g then None else Some g)"
| "clk_step g (WriteW r v) = (if tuning_reg r \<and> \<not> g then None else Some g)"
| "clk_step g e = Some g"

fun clk_run :: "bool \<Rightarrow> event list \<Rightarrow> bool option" where
  "clk_run g [] = Some g"
| "clk_run g (e # es) = (case clk_step g e of None \<Rightarrow> None | Some g' \<Rightarrow> clk_run g' es)"

definition clock_gated :: "event list \<Rightarrow> bool" where
  "clock_gated es \<longleftrightarrow> clk_run False es = Some False"

text \<open>The number of tuning commands in a trace.\<close>

fun is_probe :: "event \<Rightarrow> bool" where
  "is_probe (SendTuning r) = True"
| "is_probe e = False"

definition probe_count :: "event list \<Rightarrow> nat" where
  "probe_count es = length (filter is_probe es)"

text \<open>Concrete inputs: header constants with the given code ranges, a host with software
  tuning enabled and fallback delay code 85, and the oracle under which exactly the codes
  \<open>a, \<dots>, b\<close> pass and every other tuning command returns \<open>-5\<close>.\<close>

definition example_macros :: "int \<Rightarrow> int \<Rightarrow> macros" where
  "example_macros dmax pmax =
     \<lparr>PHY_DELAY_CODE_MAX = dmax, MAX_PHASE_CODE = pmax, PHY_CLK_MAX_DELAY_MASK = 127,
      PHY_UPDATE_DELAY_CODE = 16, SDHCI_CTRL_TUNED_CLK = 128, SW_TUNE_ENABLE = 16, EIO = 5\<rparr>"

definition example_host :: host where
  "example_host = \<lparr>delay_code = 85, phase_code = -1, enable_sw_tuning = 1,
                    host_control2 = 0, at_ctrl = 0\<rparr>"

definition passing :: "int \<Rightarrow> int \<Rightarrow> int \<Rightarrow> int" where
  "passing a b i = (if a \<le> i \<and> i \<le> b then 0 else - 5)"

section \<open>Properties\<close>

subsection \<open>The delay loop, run by run\<close>

lemma delay_loop_unfold:
  "i \<le> PHY_DELAY_CODE_MAX c \<Longrightarrow>
   delay_loop c tune i s =
     (case delay_body c tune i s of
        (Break, s') \<Rightarrow> s'
      | (Continue, s') \<Rightarrow> delay_loop c tune (i + 1) s')"
  by simp

lemma delay_loop_exit: "PHY_DELAY_CODE_MAX c < i \<Longrightarrow> delay_loop c tune i s = s"
  by simp

declare delay_loop.simps [simp del]

lemma delay_probes_empty [simp]: "hi < lo \<Longrightarrow> delay_probes c tune lo hi = []"
  by (simp add: delay_probes_def)

lemma delay_probes_snoc:
  "lo \<le> hi + 1 \<Longrightarrow> delay_probes c tune lo (hi + 1) = delay_probes c tune lo hi @ delay_probe c tune (hi + 1)"
  using upto_rec2 [of lo "hi + 1"] by (simp add: delay_probes_def)

lemma delay_body_pass:
  "tune i = 0 \<Longrightarrow>
   delay_body c tune i s =
     (Continue, s\<lparr>ret := Some 0,
                  delay_min := (if delay_min s = -1 then i else delay_min s),
                  delay_max := (if delay_min s = -1 then delay_max s else i),
                  dtrace := dtrace s @ delay_probe c tune i\<rparr>)"
  by (simp add: delay_body_def delay_probe_def Let_def)

lemma delay_body_fail_open:
  "tune i \<noteq> 0 \<Longrightarrow> delay_min s = -1 \<or> delay_max s = -1 \<Longrightarrow>
   delay_body c tune i s =
     (Continue, s\<lparr>ret := Some (tune i), dtrace := dtrace s @ delay_probe c tune i\<rparr>)"
  by (auto simp add: delay_body_def delay_probe_def Let_def)

lemma delay_body_fail_closed:
  "tune i \<noteq> 0 \<Longrightarrow> delay_min s \<noteq> -1 \<Longrightarrow> delay_max s \<noteq> -1 \<Longrightarrow>
   delay_body c tune i s =
     (let s' = s\<lparr>ret := Some (tune i), dtrace := dtrace s @ delay_probe c tune i\<rparr>;
          w = delay_max s - delay_min s
      in if delay_range s < w then
           (if 20 < w then (Break, s'\<lparr>delay_range := w, delay := (delay_min s + delay_max s) sdiv 2\<rparr>)
            else (Continue, s'\<lparr>delay_range := w, delay := (delay_min s + delay_max s) sdiv 2,
                                delay_min := -1, delay_max := -1\<rparr>))
         else (Continue, s'\<lparr>delay_min := -1, delay_max := -1\<rparr>))"
  by (simp add: delay_body_def delay_probe_def Let_def DELAY_RANGE_THRESHOLD_def)

lemma delay_loop_fails:
  assumes "i \<le> j" and "j \<le> PHY_DELAY_CODE_MAX c + 1"
    and "\<forall>k. i \<le> k \<and> k < j \<longrightarrow> tune k \<noteq> 0"
    and "delay_min s = -1 \<or> delay_max s = -1"
  shows "delay_loop c tune i s =
         delay_loop c tune j
           (s\<lparr>ret := (if i < j then Some (tune (j - 1)) else ret s),
              dtrace := dtrace s @ delay_probes c tune i (j - 1)\<rparr>)"
  using assms
proof (induction j rule: int_ge_induct)
  case base
  then show ?case by simp
next
  case (step j)
  let ?s = "s\<lparr>ret := (if i < j then Some (tune (j - 1)) else ret s),
              dtrace := dtrace s @ delay_probes c tune i (j - 1)\<rparr>"
  have "delay_loop c tune i s = delay_loop c tune j ?s"
    using step by simp
  also have "\<dots> = delay_loop c tune (j + 1)
      (?s\<lparr>ret := Some (tune j), dtrace := dtrace ?s @ delay_probe c tune j\<rparr>)"
    using step.prems step.hyps
    by (subst delay_loop_unfold) (simp_all add: delay_body_fail_open)
  finally show ?case
    using step.hyps delay_probes_snoc [of i "j - 1" c tune] by simp
qed

lemma delay_loop_passes:
  assumes "i < j" and "j \<le> PHY_DELAY_CODE_MAX c + 1" and "0 \<le> i"
    and "\<forall>k. i \<le> k \<and> k < j \<longrightarrow> tune k = 0"
  shows "delay_loop c tune i s =
         delay_loop c tune j
           (s\<lparr>ret := Some 0,
              delay_min := (if delay_min s = -1 then i else delay_min s),
              delay_max := (if delay_min s = -1 \<and> j = i + 1 then delay_max s else j - 1),
              dtrace := dtrace s @ delay_probes c tune i (j - 1)\<rparr>)"
proof -
  have "i + 1 \<le> j" using assms by simp
  then show ?thesis
    using assms
  proof (induction j rule: int_ge_induct)
    case base
    then show ?case
      by (subst delay_loop_unfold) (auto simp add: delay_body_pass delay_probes_def)
  next
    case (step j)
    let ?s = "s\<lparr>ret := Some 0,
              delay_min := (if delay_min s = -1 then i else delay_min s),
              delay_max := (if delay_min s = -1 \<and> j = i + 1 then delay_max s else j - 1),
              dtrace := dtrace s @ delay_probes c tune i (j - 1)\<rparr>"
    have "delay_loop c tune i s = delay_loop c tune j ?s"
      using step by simp
    also have "\<dots> = delay_loop c tune (j + 1)
        (?s\<lparr>delay_max := j, dtrace := dtrace ?s @ delay_probe c tune j\<rparr>)"
      using step.prems step.hyps
      by (subst delay_loop_unfold) (auto simp add: delay_body_pass)
    finally show ?case
      using step.hyps delay_probes_snoc [of i "j - 1" c tune] by simp
  qed
qed


lemma sdiv_2_nonneg: "0 \<le> x \<Longrightarrow> x sdiv 2 = x div (2::int)"
  by (simp add: signed_divide_int_def sgn_if)

lemma delay_probes_append:
  "lo \<le> mid \<Longrightarrow> mid \<le> hi + 1 \<Longrightarrow>
   delay_probes c tune lo (mid - 1) @ delay_probes c tune mid hi = delay_probes c tune lo hi"
  using upto_split2 [of lo "mid - 1" hi]
  by (cases "lo = mid") (simp_all add: delay_probes_def)

lemma dscan_clean_upd:
  "delay_min t = -1 \<Longrightarrow> delay_max t = -1 \<Longrightarrow> t\<lparr>delay_min := -1, delay_max := -1\<rparr> = t"
  by (cases t) simp

lemma delay_loop_close:
  assumes "i \<le> PHY_DELAY_CODE_MAX c" and "tune i \<noteq> 0"
    and "delay_min s \<noteq> -1" and "delay_max s \<noteq> -1"
  shows "delay_loop c tune i s =
     (let s' = s\<lparr>ret := Some (tune i), dtrace := dtrace s @ delay_probe c tune i\<rparr>;
          w = delay_max s - delay_min s
      in if delay_range s < w then
           (if 20 < w then s'\<lparr>delay_range := w, delay := (delay_min s + delay_max s) sdiv 2\<rparr>
            else delay_loop c tune (i + 1)
                   (s'\<lparr>delay_range := w, delay := (delay_min s + delay_max s) sdiv 2,
                       delay_min := -1, delay_max := -1\<rparr>))
         else delay_loop c tune (i + 1) (s'\<lparr>delay_min := -1, delay_max := -1\<rparr>))"
  using assms
  by (subst delay_loop_unfold) (simp_all add: delay_body_fail_closed Let_def)

lemma delay_window:
  assumes idx: "0 \<le> i" "i \<le> a" "a < b" "b < PHY_DELAY_CODE_MAX c"
    and before: "\<forall>k. i \<le> k \<and> k < a \<longrightarrow> tune k \<noteq> 0"
    and inside: "\<forall>k. a \<le> k \<and> k \<le> b \<longrightarrow> tune k = 0"
    and after: "tune (b + 1) \<noteq> 0"
  shows "delay_loop c tune i
           \<lparr>ret = r, delay = d, delay_min = -1, delay_max = -1, delay_range = w, dtrace = t\<rparr> =
     (if w < b - a then
        (if 20 < b - a then
           \<lparr>ret = Some (tune (b + 1)), delay = (a + b) div 2, delay_min = a, delay_max = b,
            delay_range = b - a, dtrace = t @ delay_probes c tune i (b + 1)\<rparr>
         else delay_loop c tune (b + 2)
                \<lparr>ret = Some (tune (b + 1)), delay = (a + b) div 2, delay_min = -1,
                 delay_max = -1, delay_range = b - a,
                 dtrace = t @ delay_probes c tune i (b + 1)\<rparr>)
      else delay_loop c tune (b + 2)
             \<lparr>ret = Some (tune (b + 1)), delay = d, delay_min = -1, delay_max = -1,
              delay_range = w, dtrace = t @ delay_probes c tune i (b + 1)\<rparr>)"
proof -
  let ?s = "\<lparr>ret = r, delay = d, delay_min = -1, delay_max = -1, delay_range = w, dtrace = t\<rparr>"
  let ?s1 = "\<lparr>ret = (if i < a then Some (tune (a - 1)) else r), delay = d, delay_min = -1,
              delay_max = -1, delay_range = w, dtrace = t @ delay_probes c tune i (a - 1)\<rparr>"
  let ?s2 = "\<lparr>ret = Some 0, delay = d, delay_min = a, delay_max = b, delay_range = w,
              dtrace = t @ delay_probes c tune i b\<rparr>"
  have 1: "delay_loop c tune i ?s = delay_loop c tune a ?s1"
    using delay_loop_fails [of i a c tune ?s] idx before by simp
  have 2: "delay_loop c tune a ?s1 = delay_loop c tune (b + 1) ?s2"
    using delay_loop_passes [of a "b + 1" c tune ?s1] idx inside
      delay_probes_append [of i a b c tune]
    by simp
  have 3: "t @ delay_probes c tune i b @ delay_probe c tune (b + 1)
           = t @ delay_probes c tune i (b + 1)"
    using delay_probes_snoc [of i b c tune] idx by simp
  have 4: "(a + b) sdiv 2 = (a + b) div 2"
    using idx by (simp add: sdiv_2_nonneg)
  have 5: "b + 1 + 1 = b + 2"
    by simp
  have "delay_loop c tune (b + 1) ?s2 =
     (if w < b - a then
        (if 20 < b - a then
           \<lparr>ret = Some (tune (b + 1)), delay = (a + b) div 2, delay_min = a, delay_max = b,
            delay_range = b - a, dtrace = t @ delay_probes c tune i (b + 1)\<rparr>
         else delay_loop c tune (b + 1 + 1)
                \<lparr>ret = Some (tune (b + 1)), delay = (a + b) div 2, delay_min = -1,
                 delay_max = -1, delay_range = b - a,
                 dtrace = t @ delay_probes c tune i (b + 1)\<rparr>)
      else delay_loop c tune (b + 1 + 1)
             \<lparr>ret = Some (tune (b + 1)), delay = d, delay_min = -1, delay_max = -1,
              delay_range = w, dtrace = t @ delay_probes c tune i (b + 1)\<rparr>)"
    using delay_loop_close [of "b + 1" c tune ?s2] idx after
    by (simp add: Let_def 3 4)
  then show ?thesis
    unfolding 1 2 5 .
qed

lemma delay_loop_tail:
  assumes "i \<le> PHY_DELAY_CODE_MAX c + 1"
    and "\<forall>k. i \<le> k \<and> k \<le> PHY_DELAY_CODE_MAX c \<longrightarrow> tune k \<noteq> 0"
    and "delay_min s = -1 \<or> delay_max s = -1"
  shows "delay_loop c tune i s =
         s\<lparr>ret := (if i \<le> PHY_DELAY_CODE_MAX c then Some (tune (PHY_DELAY_CODE_MAX c)) else ret s),
           dtrace := dtrace s @ delay_probes c tune i (PHY_DELAY_CODE_MAX c)\<rparr>"
  using delay_loop_fails [of i "PHY_DELAY_CODE_MAX c + 1" c tune s] assms
  by (simp add: delay_loop_exit)

lemma dscan_ok_init: "dscan_ok 0 dscan_init"
  by (simp add: dscan_ok_def dscan_init_def)

lemma delay_body_trace:
  "dtrace (snd (delay_body c tune i s)) = dtrace s @ delay_probe c tune i"
  by (simp add: delay_body_def delay_probe_def Let_def)

lemma delay_body_ret: "ret (snd (delay_body c tune i s)) = Some (tune i)"
  by (simp add: delay_body_def Let_def)

lemma delay_body_continue_ok:
  assumes "dscan_ok i s" and "0 \<le> i" and "delay_body c tune i s = (Continue, s')"
  shows "dscan_ok (i + 1) s'"
  using assms
  by (auto simp add: delay_body_def dscan_ok_def Let_def DELAY_RANGE_THRESHOLD_def
      split: if_splits)

lemma delay_body_break:
  assumes "dscan_ok i s" and "delay_body c tune i s = (Break, s')"
  shows "tune i \<noteq> 0 \<and> 0 \<le> delay s'"
  using assms
  by (auto simp add: delay_body_def dscan_ok_def Let_def sdiv_2_nonneg split: if_splits)

lemma delay_loop_reach:
  assumes "i \<le> j" and "0 \<le> i" and "j \<le> PHY_DELAY_CODE_MAX c + 1" and "dscan_ok i s"
  shows "(\<exists>k. i \<le> k \<and> k < j \<and> tune k \<noteq> 0
              \<and> 0 \<le> delay (delay_loop c tune i s)
              \<and> dtrace (delay_loop c tune i s) = dtrace s @ delay_probes c tune i k
              \<and> ret (delay_loop c tune i s) = Some (tune k))
         \<or> (\<exists>s'. delay_loop c tune i s = delay_loop c tune j s' \<and> dscan_ok j s'
                \<and> dtrace s' = dtrace s @ delay_probes c tune i (j - 1)
                \<and> ret s' = (if i < j then Some (tune (j - 1)) else ret s))"
  using assms
proof (induction j rule: int_ge_induct)
  case base
  then show ?case by auto
next
  case (step j)
  from step have "(\<exists>k. i \<le> k \<and> k < j \<and> tune k \<noteq> 0
              \<and> 0 \<le> delay (delay_loop c tune i s)
              \<and> dtrace (delay_loop c tune i s) = dtrace s @ delay_probes c tune i k
              \<and> ret (delay_loop c tune i s) = Some (tune k))
         \<or> (\<exists>s'. delay_loop c tune i s = delay_loop c tune j s' \<and> dscan_ok j s'
                \<and> dtrace s' = dtrace s @ delay_probes c tune i (j - 1)
                \<and> ret s' = (if i < j then Some (tune (j - 1)) else ret s))"
    by simp
  then show ?case
  proof
    assume "\<exists>k. i \<le> k \<and> k < j \<and> tune k \<noteq> 0
              \<and> 0 \<le> delay (delay_loop c tune i s)
              \<and> dtrace (delay_loop c tune i s) = dtrace s @ delay_probes c tune i k
              \<and> ret (delay_loop c tune i s) = Some (tune k)"
    then obtain k where "i \<le> k \<and> k < j + 1 \<and> tune k \<noteq> 0
              \<and> 0 \<le> delay (delay_loop c tune i s)
              \<and> dtrace (delay_loop c tune i s) = dtrace s @ delay_probes c tune i k
              \<and> ret (delay_loop c tune i s) = Some (tune k)"
      by force
    then show ?thesis by blast
  next
    assume "\<exists>s'. delay_loop c tune i s = delay_loop c tune j s' \<and> dscan_ok j s'
                \<and> dtrace s' = dtrace s @ delay_probes c tune i (j - 1)
                \<and> ret s' = (if i < j then Some (tune (j - 1)) else ret s)"
    then obtain s' where s': "delay_loop c tune i s = delay_loop c tune j s'" "dscan_ok j s'"
        "dtrace s' = dtrace s @ delay_probes c tune i (j - 1)"
      by blast
    obtain f s'' where body: "delay_body c tune j s' = (f, s'')"
      by (cases "delay_body c tune j s'")
    have tr: "dtrace s'' = dtrace s @ delay_probes c tune i j"
      using delay_body_trace [of c tune j s'] body s'(3) step.hyps
        delay_probes_snoc [of i "j - 1" c tune]
      by simp
    have rt: "ret s'' = Some (tune j)"
      using delay_body_ret [of c tune j s'] body by simp
    have j: "j \<le> PHY_DELAY_CODE_MAX c" "0 \<le> j"
      using step.prems step.hyps by simp_all
    show ?thesis
    proof (cases f)
      case Break
      then have "delay_loop c tune i s = s''"
        using s'(1) body j by (simp add: delay_loop_unfold)
      moreover have "tune j \<noteq> 0 \<and> 0 \<le> delay s''"
        using delay_body_break [OF s'(2)] body Break by simp
      ultimately have "i \<le> j \<and> j < j + 1 \<and> tune j \<noteq> 0
              \<and> 0 \<le> delay (delay_loop c tune i s)
              \<and> dtrace (delay_loop c tune i s) = dtrace s @ delay_probes c tune i j
              \<and> ret (delay_loop c tune i s) = Some (tune j)"
        using tr rt step.hyps by simp
      then show ?thesis by blast
    next
      case Continue
      then have "delay_loop c tune i s = delay_loop c tune (j + 1) s''"
        using s'(1) body j by (simp add: delay_loop_unfold)
      moreover have "dscan_ok (j + 1) s''"
        using delay_body_continue_ok [OF s'(2) j(2)] body Continue by simp
      ultimately have "delay_loop c tune i s = delay_loop c tune (j + 1) s'' \<and> dscan_ok (j + 1) s''
                \<and> dtrace s'' = dtrace s @ delay_probes c tune i (j + 1 - 1)
                \<and> ret s'' = (if i < j + 1 then Some (tune (j + 1 - 1)) else ret s)"
        using tr rt step.hyps by simp
      then show ?thesis by blast
    qed
  qed
qed


lemma delay_tuning_all_fail:
  assumes "0 \<le> PHY_DELAY_CODE_MAX c"
    and "\<forall>k. 0 \<le> k \<and> k \<le> PHY_DELAY_CODE_MAX c \<longrightarrow> tune k \<noteq> 0"
  shows "delay_tuning c h tune =
     \<lparr>status = Some (tune (PHY_DELAY_CODE_MAX c)),
      events = delay_probes c tune 0 (PHY_DELAY_CODE_MAX c) @ [PrErr]
               @ set_delay c (delay_code h)\<rparr>"
proof -
  have "delay_loop c tune 0 dscan_init =
          dscan_init\<lparr>ret := Some (tune (PHY_DELAY_CODE_MAX c)),
                     dtrace := dtrace dscan_init @ delay_probes c tune 0 (PHY_DELAY_CODE_MAX c)\<rparr>"
    using delay_loop_tail [of 0 c tune dscan_init] assms by (simp add: dscan_init_def)
  then show ?thesis
    by (simp add: delay_tuning_def dscan_init_def set_delay_def)
qed

lemma delay_loop_no_candidate:
  assumes "0 \<le> PHY_DELAY_CODE_MAX c" and "delay (delay_loop c tune 0 dscan_init) = -1"
  shows "ret (delay_loop c tune 0 dscan_init) = Some (tune (PHY_DELAY_CODE_MAX c))
         \<and> dtrace (delay_loop c tune 0 dscan_init) = delay_probes c tune 0 (PHY_DELAY_CODE_MAX c)"
proof -
  let ?f = "delay_loop c tune 0 dscan_init"
  let ?m = "PHY_DELAY_CODE_MAX c"
  have "(\<exists>k. 0 \<le> k \<and> k < ?m + 1 \<and> tune k \<noteq> 0 \<and> 0 \<le> delay ?f
              \<and> dtrace ?f = dtrace dscan_init @ delay_probes c tune 0 k
              \<and> ret ?f = Some (tune k))
         \<or> (\<exists>s'. ?f = delay_loop c tune (?m + 1) s' \<and> dscan_ok (?m + 1) s'
                \<and> dtrace s' = dtrace dscan_init @ delay_probes c tune 0 (?m + 1 - 1)
                \<and> ret s' = (if 0 < ?m + 1 then Some (tune (?m + 1 - 1)) else ret dscan_init))"
    using delay_loop_reach [of 0 "?m + 1" c dscan_init tune] assms(1) dscan_ok_init by simp
  then show ?thesis
  proof
    assume "\<exists>k. 0 \<le> k \<and> k < ?m + 1 \<and> tune k \<noteq> 0 \<and> 0 \<le> delay ?f
              \<and> dtrace ?f = dtrace dscan_init @ delay_probes c tune 0 k
              \<and> ret ?f = Some (tune k)"
    then have "0 \<le> delay ?f" by blast
    with assms(2) show ?thesis by simp
  next
    assume "\<exists>s'. ?f = delay_loop c tune (?m + 1) s' \<and> dscan_ok (?m + 1) s'
                \<and> dtrace s' = dtrace dscan_init @ delay_probes c tune 0 (?m + 1 - 1)
                \<and> ret s' = (if 0 < ?m + 1 then Some (tune (?m + 1 - 1)) else ret dscan_init)"
    then obtain s' where "?f = delay_loop c tune (?m + 1) s'"
        "dtrace s' = delay_probes c tune 0 ?m" "ret s' = Some (tune ?m)"
      using assms(1) by (auto simp add: dscan_init_def)
    then show ?thesis
      by (simp add: delay_loop_exit)
  qed
qed

lemma delay_run_to_end:
  assumes "0 \<le> a" and "a \<le> PHY_DELAY_CODE_MAX c"
    and "\<forall>k. 0 \<le> k \<and> k < a \<longrightarrow> tune k \<noteq> 0"
    and "\<forall>k. a \<le> k \<and> k \<le> PHY_DELAY_CODE_MAX c \<longrightarrow> tune k = 0"
  shows "delay (delay_loop c tune 0 dscan_init) = -1"
proof -
  let ?s1 = "\<lparr>ret = (if 0 < a then Some (tune (a - 1)) else None), delay = -1, delay_min = -1,
              delay_max = -1, delay_range = -1, dtrace = delay_probes c tune 0 (a - 1)\<rparr>"
  have 1: "delay_loop c tune 0 dscan_init = delay_loop c tune a ?s1"
  proof (cases "a = 0")
    case True
    then show ?thesis
      by (simp add: dscan_init_def)
  next
    case False
    then have "0 < a"
      using assms(1) by simp
    then show ?thesis
      unfolding dscan_init_def
      using delay_loop_fails [of 0 a c tune
          "\<lparr>ret = None, delay = -1, delay_min = -1, delay_max = -1, delay_range = -1,
            dtrace = []\<rparr>"] assms(2,3)
      by simp
  qed
  have 2: "delay (delay_loop c tune a ?s1) = -1"
    using delay_loop_passes [of a "PHY_DELAY_CODE_MAX c + 1" c tune ?s1] assms(1,2,4)
    by (simp add: delay_loop_exit)
  show ?thesis
    unfolding 1 using 2 .
qed

lemma delay_probes_join:
  "lo \<le> mid + 1 \<Longrightarrow> mid \<le> hi \<Longrightarrow>
   delay_probes c tune lo mid @ delay_probes c tune (mid + 1) hi = delay_probes c tune lo hi"
  using delay_probes_append [of lo "mid + 1" hi c tune] by simp

lemma delay_loop_rest:
  assumes "i \<le> PHY_DELAY_CODE_MAX c + 1" and "0 \<le> i"
    and "\<forall>k. i \<le> k \<and> k \<le> PHY_DELAY_CODE_MAX c \<longrightarrow> tune k \<noteq> 0"
  shows "delay (delay_loop c tune i
            \<lparr>ret = r, delay = d, delay_min = -1, delay_max = -1, delay_range = w,
             dtrace = delay_probes c tune 0 (i - 1)\<rparr>) = d
       \<and> dtrace (delay_loop c tune i
            \<lparr>ret = r, delay = d, delay_min = -1, delay_max = -1, delay_range = w,
             dtrace = delay_probes c tune 0 (i - 1)\<rparr>)
         = delay_probes c tune 0 (PHY_DELAY_CODE_MAX c)"
  using delay_loop_tail [of i c tune
      "\<lparr>ret = r, delay = d, delay_min = -1, delay_max = -1, delay_range = w,
        dtrace = delay_probes c tune 0 (i - 1)\<rparr>"] assms
    delay_probes_append [of 0 i "PHY_DELAY_CODE_MAX c" c tune]
  by simp

lemma delay_tuning_broke:
  assumes "0 \<le> delay (delay_loop c tune 0 dscan_init)"
    and "dtrace (delay_loop c tune 0 dscan_init) = t"
  shows "delay_tuning c h tune =
     \<lparr>status = Some 0,
      events = t @ [PrInfo (delay (delay_loop c tune 0 dscan_init))]
               @ set_delay c (delay (delay_loop c tune 0 dscan_init))\<rparr>"
  using assms by (simp add: delay_tuning_def set_delay_def Let_def)

subsection \<open>The phase loop, run by run\<close>

lemma phase_loop_unfold:
  "pc \<le> MAX_PHASE_CODE c \<Longrightarrow>
   phase_loop c tune pc s =
     (case phase_body tune pc s of
        (Break, s') \<Rightarrow> s'
      | (Continue, s') \<Rightarrow> phase_loop c tune (pc + 1) s')"
  by simp

lemma phase_loop_exit: "MAX_PHASE_CODE c < pc \<Longrightarrow> phase_loop c tune pc s = s"
  by simp

declare phase_loop.simps [simp del]

lemma phase_probes_empty [simp]: "hi < lo \<Longrightarrow> phase_probes tune lo hi = []"
  by (simp add: phase_probes_def)

lemma phase_probes_snoc:
  "lo \<le> hi + 1 \<Longrightarrow>
   phase_probes tune lo (hi + 1) = phase_probes tune lo hi @ phase_probe tune (hi + 1)"
  using upto_rec2 [of lo "hi + 1"] by (simp add: phase_probes_def)

lemma phase_probes_append:
  "lo \<le> mid \<Longrightarrow> mid \<le> hi + 1 \<Longrightarrow>
   phase_probes tune lo (mid - 1) @ phase_probes tune mid hi = phase_probes tune lo hi"
  using upto_split2 [of lo "mid - 1" hi]
  by (cases "lo = mid") (simp_all add: phase_probes_def)

lemma phase_body_pass:
  "tune pc = 0 \<Longrightarrow>
   phase_body tune pc \<lparr>code_min = mn, code_max = mx, ptrace = t\<rparr> =
     (Continue, \<lparr>code_min = (if mn = -1 then pc else mn),
                 code_max = (if mn = -1 then mx else pc),
                 ptrace = t @ phase_probe tune pc\<rparr>)"
  by (simp add: phase_body_def phase_probe_def Let_def)

lemma phase_body_fail:
  "tune pc \<noteq> 0 \<Longrightarrow>
   phase_body tune pc \<lparr>code_min = mn, code_max = mx, ptrace = t\<rparr> =
     (if mn \<noteq> -1 \<and> mx \<noteq> -1 then Break else Continue,
      \<lparr>code_min = mn, code_max = mx, ptrace = t @ phase_probe tune pc\<rparr>)"
  by (simp add: phase_body_def phase_probe_def Let_def)

lemma phase_loop_fails:
  assumes "i \<le> j" and "j \<le> MAX_PHASE_CODE c + 1"
    and "\<forall>k. i \<le> k \<and> k < j \<longrightarrow> tune k \<noteq> 0"
    and "mn = -1 \<or> mx = -1"
  shows "phase_loop c tune i \<lparr>code_min = mn, code_max = mx, ptrace = t\<rparr> =
         phase_loop c tune j
           \<lparr>code_min = mn, code_max = mx, ptrace = t @ phase_probes tune i (j - 1)\<rparr>"
  using assms
proof (induction j rule: int_ge_induct)
  case base
  then show ?case by simp
next
  case (step j)
  have "phase_loop c tune i \<lparr>code_min = mn, code_max = mx, ptrace = t\<rparr> =
        phase_loop c tune j
          \<lparr>code_min = mn, code_max = mx, ptrace = t @ phase_probes tune i (j - 1)\<rparr>"
    using step by simp
  also have "\<dots> = phase_loop c tune (j + 1)
      \<lparr>code_min = mn, code_max = mx,
       ptrace = (t @ phase_probes tune i (j - 1)) @ phase_probe tune j\<rparr>"
    using step.prems step.hyps
    by (subst phase_loop_unfold) (auto simp add: phase_body_fail)
  finally show ?case
    using step.hyps phase_probes_snoc [of i "j - 1" tune] by simp
qed

lemma phase_loop_passes:
  assumes "i < j" and "j \<le> MAX_PHASE_CODE c + 1" and "0 \<le> i"
    and "\<forall>k. i \<le> k \<and> k < j \<longrightarrow> tune k = 0"
  shows "phase_loop c tune i \<lparr>code_min = mn, code_max = mx, ptrace = t\<rparr> =
         phase_loop c tune j
           \<lparr>code_min = (if mn = -1 then i else mn),
            code_max = (if mn = -1 \<and> j = i + 1 then mx else j - 1),
            ptrace = t @ phase_probes tune i (j - 1)\<rparr>"
proof -
  have "i + 1 \<le> j" using assms by simp
  then show ?thesis
    using assms
  proof (induction j rule: int_ge_induct)
    case base
    then show ?case
      by (subst phase_loop_unfold) (auto simp add: phase_body_pass phase_probes_def)
  next
    case (step j)
    have "phase_loop c tune i \<lparr>code_min = mn, code_max = mx, ptrace = t\<rparr> =
          phase_loop c tune j
           \<lparr>code_min = (if mn = -1 then i else mn),
            code_max = (if mn = -1 \<and> j = i + 1 then mx else j - 1),
            ptrace = t @ phase_probes tune i (j - 1)\<rparr>"
      using step by simp
    also have "\<dots> = phase_loop c tune (j + 1)
           \<lparr>code_min = (if mn = -1 then i else mn), code_max = j,
            ptrace = (t @ phase_probes tune i (j - 1)) @ phase_probe tune j\<rparr>"
      using step.prems step.hyps
      by (subst phase_loop_unfold) (auto simp add: phase_body_pass)
    finally show ?case
      using step.hyps phase_probes_snoc [of i "j - 1" tune] by simp
  qed
qed

lemma phase_loop_close:
  assumes "i \<le> MAX_PHASE_CODE c" and "tune i \<noteq> 0" and "mn \<noteq> -1" and "mx \<noteq> -1"
  shows "phase_loop c tune i \<lparr>code_min = mn, code_max = mx, ptrace = t\<rparr> =
         \<lparr>code_min = mn, code_max = mx, ptrace = t @ phase_probe tune i\<rparr>"
  using assms by (subst phase_loop_unfold) (simp_all add: phase_body_fail)

lemma phase_loop_tail:
  assumes "i \<le> MAX_PHASE_CODE c + 1"
    and "\<forall>k. i \<le> k \<and> k \<le> MAX_PHASE_CODE c \<longrightarrow> tune k \<noteq> 0"
    and "mn = -1 \<or> mx = -1"
  shows "phase_loop c tune i \<lparr>code_min = mn, code_max = mx, ptrace = t\<rparr> =
         \<lparr>code_min = mn, code_max = mx,
          ptrace = t @ phase_probes tune i (MAX_PHASE_CODE c)\<rparr>"
  using phase_loop_fails [of i "MAX_PHASE_CODE c + 1" c tune mn mx t] assms
  by (simp add: phase_loop_exit)

lemma phase_min_kept:
  "code_min s \<noteq> -1 \<Longrightarrow> code_min (phase_loop c tune i s) = code_min s"
proof (induction c tune i s rule: phase_loop.induct)
  case (1 c tune pc s)
  show ?case
  proof (cases "pc \<le> MAX_PHASE_CODE c")
    case False
    then show ?thesis by (simp add: phase_loop_exit)
  next
    case True
    obtain f s' where body: "phase_body tune pc s = (f, s')"
      by (cases "phase_body tune pc s")
    then have keep: "code_min s' = code_min s"
      using "1.prems" by (auto simp add: phase_body_def Let_def split: if_splits)
    show ?thesis
    proof (cases f)
      case Break
      then show ?thesis using True body keep by (simp add: phase_loop_unfold)
    next
      case Continue
      then show ?thesis
        using True body keep "1.IH" [of f s'] "1.prems"
        by (simp add: phase_loop_unfold)
    qed
  qed
qed

lemma phase_pass_sets_min:
  assumes "0 \<le> i" and "i \<le> k" and "k \<le> MAX_PHASE_CODE c" and "tune k = 0"
  shows "code_min (phase_loop c tune i s) \<noteq> -1"
  using assms
proof (induction c tune i s rule: phase_loop.induct)
  case (1 c tune pc s)
  obtain f s' where body: "phase_body tune pc s = (f, s')"
    by (cases "phase_body tune pc s")
  have le: "pc \<le> MAX_PHASE_CODE c"
    using "1.prems" by simp
  show ?case
  proof (cases "code_min s = -1")
    case False
    then show ?thesis using phase_min_kept [of s c tune pc] by simp
  next
    case unset: True
    show ?thesis
    proof (cases "pc = k")
      case True
      then have "f = Continue" "code_min s' = k"
        using body "1.prems" unset by (auto simp add: phase_body_def Let_def)
      then show ?thesis
        using le body phase_min_kept [of s' c tune "pc + 1"] "1.prems"
        by (simp add: phase_loop_unfold)
    next
      case False
      then have "f = Continue"
        using body unset by (auto simp add: phase_body_def Let_def split: if_splits)
      then show ?thesis
        using le body "1.IH" [of f s'] "1.prems" False
        by (simp add: phase_loop_unfold)
    qed
  qed
qed

lemma phase_tuning_found:
  assumes "phase_loop c tune 0 pscan_init = \<lparr>code_min = mn, code_max = mx, ptrace = t\<rparr>"
    and "mn \<noteq> -1 \<or> mx \<noteq> -1"
  shows "phase_code_tuning c tune =
     \<lparr>status = Some 0,
      events = t @ [PrInfo ((mn + mx) sdiv 2)] @ set_phase ((mn + mx) sdiv 2)\<rparr>"
  using assms by (auto simp add: phase_code_tuning_def set_phase_def Let_def)

lemma phase_tuning_all_fail:
  assumes "\<forall>k. 0 \<le> k \<and> k \<le> MAX_PHASE_CODE c \<longrightarrow> tune k \<noteq> 0"
  shows "phase_loop c tune 0 pscan_init =
           \<lparr>code_min = -1, code_max = -1, ptrace = phase_probes tune 0 (MAX_PHASE_CODE c)\<rparr>"
proof (cases "0 \<le> MAX_PHASE_CODE c + 1")
  case True
  then show ?thesis
    unfolding pscan_init_def
    using phase_loop_tail [of 0 c tune "-1" "-1" "[]"] assms by simp
next
  case False
  then show ?thesis
    by (simp add: pscan_init_def phase_loop_exit)
qed

lemma phase_first_window_loop:
  assumes "0 \<le> p" and "p < q" and "q < f" and "f \<le> MAX_PHASE_CODE c"
    and "\<forall>k. 0 \<le> k \<and> k < p \<longrightarrow> tune k \<noteq> 0" and "tune p = 0"
    and "\<forall>k. p < k \<and> k < q \<longrightarrow> tune k \<noteq> 0"
    and "\<forall>k. q \<le> k \<and> k < f \<longrightarrow> tune k = 0" and "tune f \<noteq> 0"
  shows "phase_loop c tune 0 pscan_init =
           \<lparr>code_min = p, code_max = f - 1, ptrace = phase_probes tune 0 f\<rparr>"
proof -
  have 1: "phase_loop c tune 0 pscan_init =
           phase_loop c tune p \<lparr>code_min = -1, code_max = -1,
                                ptrace = phase_probes tune 0 (p - 1)\<rparr>"
    unfolding pscan_init_def
    using phase_loop_fails [of 0 p c tune "-1" "-1" "[]"] assms(1-5) by simp
  have one: "\<forall>k. p \<le> k \<and> k < p + 1 \<longrightarrow> tune k = 0"
  proof (intro allI impI)
    fix k
    assume "p \<le> k \<and> k < p + 1"
    then have "k = p" by simp
    then show "tune k = 0" using assms(6) by simp
  qed
  have 2: "phase_loop c tune p \<lparr>code_min = -1, code_max = -1,
                                ptrace = phase_probes tune 0 (p - 1)\<rparr> =
           phase_loop c tune (p + 1) \<lparr>code_min = p, code_max = -1,
                                      ptrace = phase_probes tune 0 p\<rparr>"
    using phase_loop_passes [of p "p + 1" c tune "-1" "-1" "phase_probes tune 0 (p - 1)"]
      assms(1-4) one phase_probes_append [of 0 p p tune]
    by simp
  have 3: "phase_loop c tune (p + 1) \<lparr>code_min = p, code_max = -1,
                                      ptrace = phase_probes tune 0 p\<rparr> =
           phase_loop c tune q \<lparr>code_min = p, code_max = -1,
                                ptrace = phase_probes tune 0 (q - 1)\<rparr>"
    using phase_loop_fails [of "p + 1" q c tune p "-1" "phase_probes tune 0 p"]
      assms(1-4,7) phase_probes_append [of 0 "p + 1" "q - 1" tune]
    by simp
  have 4: "phase_loop c tune q \<lparr>code_min = p, code_max = -1,
                                ptrace = phase_probes tune 0 (q - 1)\<rparr> =
           phase_loop c tune f \<lparr>code_min = p, code_max = f - 1,
                                ptrace = phase_probes tune 0 (f - 1)\<rparr>"
    using phase_loop_passes [of q f c tune p "-1" "phase_probes tune 0 (q - 1)"]
      assms(1-4,8) phase_probes_append [of 0 q "f - 1" tune]
    by simp
  have 5: "phase_loop c tune f \<lparr>code_min = p, code_max = f - 1,
                                ptrace = phase_probes tune 0 (f - 1)\<rparr> =
           \<lparr>code_min = p, code_max = f - 1, ptrace = phase_probes tune 0 f\<rparr>"
    using phase_loop_close [of f c tune p "f - 1" "phase_probes tune 0 (f - 1)"]
      assms(1-4,9) phase_probes_snoc [of 0 "f - 1" tune]
    by simp
  show ?thesis
    unfolding 1 2 3 4 5 ..
qed

lemma phase_single_pass_loop:
  assumes "0 \<le> p" and "p \<le> MAX_PHASE_CODE c" and "\<forall>k. (tune k = 0) = (k = p)"
  shows "phase_loop c tune 0 pscan_init =
           \<lparr>code_min = p, code_max = -1, ptrace = phase_probes tune 0 (MAX_PHASE_CODE c)\<rparr>"
proof -
  have 1: "phase_loop c tune 0 pscan_init =
           phase_loop c tune p \<lparr>code_min = -1, code_max = -1,
                                ptrace = phase_probes tune 0 (p - 1)\<rparr>"
    unfolding pscan_init_def
    using phase_loop_fails [of 0 p c tune "-1" "-1" "[]"] assms by simp
  have 2: "phase_loop c tune p \<lparr>code_min = -1, code_max = -1,
                                ptrace = phase_probes tune 0 (p - 1)\<rparr> =
           phase_loop c tune (p + 1) \<lparr>code_min = p, code_max = -1,
                                      ptrace = phase_probes tune 0 p\<rparr>"
    using phase_loop_passes [of p "p + 1" c tune "-1" "-1" "phase_probes tune 0 (p - 1)"]
      assms phase_probes_append [of 0 p p tune]
    by simp
  have 3: "phase_loop c tune (p + 1) \<lparr>code_min = p, code_max = -1,
                                      ptrace = phase_probes tune 0 p\<rparr> =
           \<lparr>code_min = p, code_max = -1, ptrace = phase_probes tune 0 (MAX_PHASE_CODE c)\<rparr>"
    using phase_loop_tail [of "p + 1" c tune p "-1" "phase_probes tune 0 p"]
      assms phase_probes_append [of 0 "p + 1" "MAX_PHASE_CODE c" tune]
    by simp
  show ?thesis
    unfolding 1 2 3 ..
qed

lemma phase_run_to_end_loop:
  assumes "0 \<le> p" and "p < q" and "q \<le> MAX_PHASE_CODE c"
    and "\<forall>k. 0 \<le> k \<and> k < p \<longrightarrow> tune k \<noteq> 0" and "tune p = 0"
    and "\<forall>k. p < k \<and> k < q \<longrightarrow> tune k \<noteq> 0"
    and "\<forall>k. q \<le> k \<and> k \<le> MAX_PHASE_CODE c \<longrightarrow> tune k = 0"
  shows "phase_loop c tune 0 pscan_init =
           \<lparr>code_min = p, code_max = MAX_PHASE_CODE c,
            ptrace = phase_probes tune 0 (MAX_PHASE_CODE c)\<rparr>"
proof -
  have one: "\<forall>k. p \<le> k \<and> k < p + 1 \<longrightarrow> tune k = 0"
  proof (intro allI impI)
    fix k
    assume "p \<le> k \<and> k < p + 1"
    then have "k = p" by simp
    then show "tune k = 0" using assms(5) by simp
  qed
  have 1: "phase_loop c tune 0 pscan_init =
           phase_loop c tune p \<lparr>code_min = -1, code_max = -1,
                                ptrace = phase_probes tune 0 (p - 1)\<rparr>"
    unfolding pscan_init_def
    using phase_loop_fails [of 0 p c tune "-1" "-1" "[]"] assms(1-4) by simp
  have 2: "phase_loop c tune p \<lparr>code_min = -1, code_max = -1,
                                ptrace = phase_probes tune 0 (p - 1)\<rparr> =
           phase_loop c tune (p + 1) \<lparr>code_min = p, code_max = -1,
                                      ptrace = phase_probes tune 0 p\<rparr>"
    using phase_loop_passes [of p "p + 1" c tune "-1" "-1" "phase_probes tune 0 (p - 1)"]
      assms(1-3) one phase_probes_append [of 0 p p tune]
    by simp
  have 3: "phase_loop c tune (p + 1) \<lparr>code_min = p, code_max = -1,
                                      ptrace = phase_probes tune 0 p\<rparr> =
           phase_loop c tune q \<lparr>code_min = p, code_max = -1,
                                ptrace = phase_probes tune 0 (q - 1)\<rparr>"
    using phase_loop_fails [of "p + 1" q c tune p "-1" "phase_probes tune 0 p"]
      assms(1-3,6) phase_probes_append [of 0 "p + 1" "q - 1" tune]
    by simp
  have 4: "phase_loop c tune q \<lparr>code_min = p, code_max = -1,
                                ptrace = phase_probes tune 0 (q - 1)\<rparr> =
           phase_loop c tune (MAX_PHASE_CODE c + 1)
             \<lparr>code_min = p, code_max = MAX_PHASE_CODE c,
              ptrace = phase_probes tune 0 (MAX_PHASE_CODE c)\<rparr>"
    using phase_loop_passes [of q "MAX_PHASE_CODE c + 1" c tune p "-1"
        "phase_probes tune 0 (q - 1)"]
      assms(1-3,7) phase_probes_append [of 0 q "MAX_PHASE_CODE c" tune]
    by simp
  show ?thesis
    unfolding 1 2 3 4 by (simp add: phase_loop_exit)
qed

subsection \<open>Traces of the scanners and clock gating\<close>

lemma clk_run_append:
  "clk_run g (xs @ ys) = (case clk_run g xs of None \<Rightarrow> None | Some g' \<Rightarrow> clk_run g' ys)"
  by (induction xs arbitrary: g) (simp_all split: option.splits)

lemma clock_gated_append: "clock_gated xs \<Longrightarrow> clock_gated ys \<Longrightarrow> clock_gated (xs @ ys)"
  by (simp add: clock_gated_def clk_run_append)

lemma clock_gated_empty: "clock_gated []"
  by (simp add: clock_gated_def)

lemma clock_gated_delay_probe: "clock_gated (delay_probe c tune i)"
  by (simp add: clock_gated_def delay_probe_def config_phy_delay_def)

lemma clock_gated_phase_probe: "clock_gated (phase_probe tune pc)"
  by (simp add: clock_gated_def phase_probe_def)

lemma clock_gated_set_delay: "clock_gated (set_delay c d)"
  by (simp add: clock_gated_def set_delay_def config_phy_delay_def)

lemma clock_gated_set_phase: "clock_gated (set_phase v)"
  by (simp add: clock_gated_def set_phase_def)

lemma clock_gated_setup: "clock_gated (sw_tuning_setup c h)"
  by (simp add: clock_gated_def sw_tuning_setup_def Let_def)

lemma clock_gated_log:
  "clock_gated (PrErr # es) = clock_gated es" "clock_gated (PrInfo v # es) = clock_gated es"
  by (simp_all add: clock_gated_def)

lemma delay_loop_gated:
  "clock_gated (dtrace s) \<Longrightarrow> clock_gated (dtrace (delay_loop c tune i s))"
proof (induction c tune i s rule: delay_loop.induct)
  case (1 c tune i s)
  show ?case
  proof (cases "i \<le> PHY_DELAY_CODE_MAX c")
    case False
    then show ?thesis using "1.prems" by (simp add: delay_loop_exit)
  next
    case True
    obtain f s' where body: "delay_body c tune i s = (f, s')"
      by (cases "delay_body c tune i s")
    have g: "clock_gated (dtrace s')"
      using delay_body_trace [of c tune i s] body "1.prems"
      by (simp add: clock_gated_append clock_gated_delay_probe)
    show ?thesis
    proof (cases f)
      case Break
      then show ?thesis using True body g by (simp add: delay_loop_unfold)
    next
      case Continue
      then show ?thesis
        using True body g "1.IH" [of f s'] by (simp add: delay_loop_unfold)
    qed
  qed
qed

lemma phase_body_trace:
  "ptrace (snd (phase_body tune pc s)) = ptrace s @ phase_probe tune pc"
  by (simp add: phase_body_def phase_probe_def Let_def)

lemma phase_loop_gated:
  "clock_gated (ptrace s) \<Longrightarrow> clock_gated (ptrace (phase_loop c tune i s))"
proof (induction c tune i s rule: phase_loop.induct)
  case (1 c tune pc s)
  show ?case
  proof (cases "pc \<le> MAX_PHASE_CODE c")
    case False
    then show ?thesis using "1.prems" by (simp add: phase_loop_exit)
  next
    case True
    obtain f s' where body: "phase_body tune pc s = (f, s')"
      by (cases "phase_body tune pc s")
    have g: "clock_gated (ptrace s')"
      using phase_body_trace [of tune pc s] body "1.prems"
      by (simp add: clock_gated_append clock_gated_phase_probe)
    show ?thesis
    proof (cases f)
      case Break
      then show ?thesis using True body g by (simp add: phase_loop_unfold)
    next
      case Continue
      then show ?thesis
        using True body g "1.IH" [of f s'] by (simp add: phase_loop_unfold)
    qed
  qed
qed

lemma delay_tuning_events:
  "events (delay_tuning c h tune) =
     dtrace (delay_loop c tune 0 dscan_init)
     @ (if delay (delay_loop c tune 0 dscan_init) = -1
        then [PrErr] @ set_delay c (delay_code h)
        else [PrInfo (delay (delay_loop c tune 0 dscan_init))]
             @ set_delay c (delay (delay_loop c tune 0 dscan_init)))"
  by (simp add: delay_tuning_def set_delay_def Let_def)

lemma phase_tuning_events:
  "events (phase_code_tuning c tune) =
     ptrace (phase_loop c tune 0 pscan_init)
     @ (if code_min (phase_loop c tune 0 pscan_init) = -1
           \<and> code_max (phase_loop c tune 0 pscan_init) = -1
        then [PrErr] @ set_phase 0
        else [PrInfo ((code_min (phase_loop c tune 0 pscan_init)
                       + code_max (phase_loop c tune 0 pscan_init)) sdiv 2)]
             @ set_phase ((code_min (phase_loop c tune 0 pscan_init)
                           + code_max (phase_loop c tune 0 pscan_init)) sdiv 2))"
  by (simp add: phase_code_tuning_def set_phase_def Let_def)

lemma delay_tuning_gated: "clock_gated (events (delay_tuning c h tune))"
proof -
  have "clock_gated (dtrace (delay_loop c tune 0 dscan_init))"
    by (rule delay_loop_gated) (simp add: dscan_init_def clock_gated_empty)
  then show ?thesis
    unfolding delay_tuning_events
    by (intro clock_gated_append) (simp_all add: clock_gated_set_delay clock_gated_log)
qed

lemma phase_tuning_gated: "clock_gated (events (phase_code_tuning c tune))"
proof -
  have "clock_gated (ptrace (phase_loop c tune 0 pscan_init))"
    by (rule phase_loop_gated) (simp add: pscan_init_def clock_gated_empty)
  then show ?thesis
    unfolding phase_tuning_events
    by (intro clock_gated_append) (simp_all add: clock_gated_set_phase clock_gated_log)
qed

lemma executing_tuning_events:
  "events (executing_tuning c h dtune ptune) =
     (if enable_sw_tuning h = 0 then (if phase_code h \<noteq> -1 then set_phase (phase_code h) else [])
      else sw_tuning_setup c h @ events (delay_tuning c h dtune)
           @ (case status (delay_tuning c h dtune) of
                None \<Rightarrow> []
              | Some r \<Rightarrow> if r < 0 then [] else events (phase_code_tuning c ptune)))"
  by (simp add: executing_tuning_def set_phase_def Let_def split: option.splits)

subsection \<open>Status of the delay scan and number of tuning commands\<close>

lemma delay_loop_ret_range:
  "ret s = None \<or> (\<exists>k. ret s = Some (tune k)) \<Longrightarrow>
   ret (delay_loop c tune i s) = None \<or> (\<exists>k. ret (delay_loop c tune i s) = Some (tune k))"
proof (induction c tune i s rule: delay_loop.induct)
  case (1 c tune i s)
  show ?case
  proof (cases "i \<le> PHY_DELAY_CODE_MAX c")
    case False
    then show ?thesis using "1.prems" by (simp add: delay_loop_exit)
  next
    case True
    obtain f s' where body: "delay_body c tune i s = (f, s')"
      by (cases "delay_body c tune i s")
    have r: "ret s' = None \<or> (\<exists>k. ret s' = Some (tune k))"
      using delay_body_ret [of c tune i s] body by auto
    show ?thesis
    proof (cases f)
      case Break
      then show ?thesis using True body r by (simp add: delay_loop_unfold)
    next
      case Continue
      then show ?thesis
        using True body r "1.IH" [of f s'] by (simp add: delay_loop_unfold)
    qed
  qed
qed

lemma delay_tuning_status_range:
  assumes "status (delay_tuning c h tune) = Some r"
  shows "r = 0 \<or> (\<exists>k. r = tune k)"
proof -
  have "ret (delay_loop c tune 0 dscan_init) = None
        \<or> (\<exists>k. ret (delay_loop c tune 0 dscan_init) = Some (tune k))"
    by (rule delay_loop_ret_range) (simp add: dscan_init_def)
  then show ?thesis
    using assms by (auto simp add: delay_tuning_def Let_def split: if_splits)
qed

lemma probe_count_append: "probe_count (xs @ ys) = probe_count xs + probe_count ys"
  by (simp add: probe_count_def)

lemma probe_count_setup: "probe_count (sw_tuning_setup c h) = 0"
  by (simp add: probe_count_def sw_tuning_setup_def Let_def)

text \<open>The orchestrator's test \<^verbatim>\<open>if (ret < 0) return ret;\<close>: a negative status of the delay
  scan is returned as it is, and no event follows those of the delay scan. A nonzero
  status is negative when the tuning commands return 0 or a negative errno. After a sweep
  that recorded no candidate, the status is the result of the last tuning command.\<close>

lemma executing_tuning_negative_status:
  "(enable_sw_tuning h \<noteq> 0 \<and> status (delay_tuning c h dtune) = Some r
      \<and> (r < 0 \<or> r \<noteq> 0 \<and> (\<forall>k. dtune k \<le> 0))
    \<longrightarrow> executing_tuning c h dtune ptune =
           \<lparr>status = Some r, events = sw_tuning_setup c h @ events (delay_tuning c h dtune)\<rparr>
        \<and> probe_count (events (executing_tuning c h dtune ptune))
          = probe_count (events (delay_tuning c h dtune)))
   \<and> (0 \<le> PHY_DELAY_CODE_MAX c \<and> delay (delay_loop c dtune 0 dscan_init) = -1
      \<longrightarrow> status (delay_tuning c h dtune) = Some (dtune (PHY_DELAY_CODE_MAX c)))"
proof (intro conjI impI)
  assume h: "enable_sw_tuning h \<noteq> 0 \<and> status (delay_tuning c h dtune) = Some r
      \<and> (r < 0 \<or> r \<noteq> 0 \<and> (\<forall>k. dtune k \<le> 0))"
  have neg: "r < 0"
  proof (cases "r < 0")
    case True
    then show ?thesis .
  next
    case False
    with h have nz: "r \<noteq> 0" and le: "\<forall>k. dtune k \<le> 0"
      by auto
    from h have "r = 0 \<or> (\<exists>k. r = dtune k)"
      using delay_tuning_status_range [of c h dtune r] by blast
    with nz obtain k where "r = dtune k"
      by blast
    with le have "r \<le> 0"
      by simp
    with nz show ?thesis
      by simp
  qed
  with h show e: "executing_tuning c h dtune ptune =
           \<lparr>status = Some r, events = sw_tuning_setup c h @ events (delay_tuning c h dtune)\<rparr>"
    by (simp add: executing_tuning_def Let_def)
  show "probe_count (events (executing_tuning c h dtune ptune))
          = probe_count (events (delay_tuning c h dtune))"
    unfolding e by (simp add: probe_count_append probe_count_setup)
next
  assume "0 \<le> PHY_DELAY_CODE_MAX c \<and> delay (delay_loop c dtune 0 dscan_init) = -1"
  then show "status (delay_tuning c h dtune) = Some (dtune (PHY_DELAY_CODE_MAX c))"
    using delay_loop_no_candidate [of c dtune]
    by (simp add: delay_tuning_def Let_def)
qed

subsection \<open>C1: midpoint of a single passing run\<close>

text \<open>
  C1, as amended. Under an oracle whose passing codes are exactly one run \<open>a, \<dots>, b\<close>
  with at least two codes (\<open>a < b\<close>) that is closed by a failing code inside the range
  (\<open>b < PHY_DELAY_CODE_MAX\<close>), the delay scanner returns 0 and its last action is to
  program \<open>floor ((a + b) / 2)\<close> through the delay-line driver. The scan probes every code
  of the range, or stops at \<open>b + 1\<close> when the run is wider than the threshold.
\<close>

theorem delay_midpoint:
  assumes "0 \<le> a" and "a < b" and "b < PHY_DELAY_CODE_MAX c"
    and "\<forall>k. (tune k = 0) = (a \<le> k \<and> k \<le> b)"
  shows "delay_tuning c h tune =
     \<lparr>status = Some 0,
      events = delay_probes c tune 0 (if 20 < b - a then b + 1 else PHY_DELAY_CODE_MAX c)
               @ [PrInfo ((a + b) div 2)] @ set_delay c ((a + b) div 2)\<rparr>"
proof -
  have mid: "(a + b) div 2 \<noteq> -1"
    using assms(1,2) by linarith
  have win: "delay_loop c tune 0 dscan_init =
     (if 20 < b - a then
        \<lparr>ret = Some (tune (b + 1)), delay = (a + b) div 2, delay_min = a, delay_max = b,
         delay_range = b - a, dtrace = delay_probes c tune 0 (b + 1)\<rparr>
      else delay_loop c tune (b + 2)
             \<lparr>ret = Some (tune (b + 1)), delay = (a + b) div 2, delay_min = -1,
              delay_max = -1, delay_range = b - a, dtrace = delay_probes c tune 0 (b + 1)\<rparr>)"
    unfolding dscan_init_def
    using delay_window [of 0 a b c tune None "-1" "-1" "[]"] assms by simp
  show ?thesis
  proof (cases "20 < b - a")
    case True
    then show ?thesis
      using win mid by (simp add: delay_tuning_def set_delay_def)
  next
    case False
    have "delay_loop c tune (b + 2)
             \<lparr>ret = Some (tune (b + 1)), delay = (a + b) div 2, delay_min = -1,
              delay_max = -1, delay_range = b - a, dtrace = delay_probes c tune 0 (b + 1)\<rparr>
          = \<lparr>ret = (if b + 2 \<le> PHY_DELAY_CODE_MAX c then Some (tune (PHY_DELAY_CODE_MAX c))
                    else Some (tune (b + 1))),
             delay = (a + b) div 2, delay_min = -1, delay_max = -1, delay_range = b - a,
             dtrace = delay_probes c tune 0 (PHY_DELAY_CODE_MAX c)\<rparr>"
    proof (cases "b + 2 \<le> PHY_DELAY_CODE_MAX c")
      case True
      have "delay_probes c tune 0 (b + 1) @ delay_probes c tune (b + 2) (PHY_DELAY_CODE_MAX c)
            = delay_probes c tune 0 (PHY_DELAY_CODE_MAX c)"
        using delay_probes_append [of 0 "b + 2" "PHY_DELAY_CODE_MAX c" c tune] assms(1,2) True
        by (simp add: add.commute)
      with True assms show ?thesis
        by (subst delay_loop_tail) simp_all
    next
      case False
      with assms(3) have "PHY_DELAY_CODE_MAX c = b + 1"
        by simp
      then show ?thesis
        by (simp add: delay_loop_exit)
    qed
    then show ?thesis
      using win mid False by (simp add: delay_tuning_def set_delay_def)
  qed
qed

theorem delay_midpoint_witness:
  "delay_tuning (example_macros 7 5) example_host (passing 2 5) =
     \<lparr>status = Some 0,
      events = delay_probes (example_macros 7 5) (passing 2 5) 0 7
               @ [PrInfo 3] @ set_delay (example_macros 7 5) 3\<rparr>"
  using delay_midpoint [of 2 5 "example_macros 7 5" "passing 2 5" example_host]
  by (simp add: example_macros_def passing_def)

text \<open>
  C1 as stated fails for a run of one code: with codes \<open>0, \<dots>, 7\<close> and code 3 the only
  one that passes, the scanner records no window, takes its failure path, programs the
  fallback code 85 and returns the last tuning command's error.
\<close>

theorem delay_single_code_counterexample:
  "delay_tuning (example_macros 7 5) example_host (passing 3 3) =
     \<lparr>status = Some (- 5),
      events = delay_probes (example_macros 7 5) (passing 3 3) 0 7
               @ [PrErr] @ set_delay (example_macros 7 5) 85\<rparr>"
  by code_simp

subsection \<open>C2: the phase scanner takes the first complete window\<close>

text \<open>
  C2. For every oracle: let \<open>p\<close> be the first passing phase code, \<open>q\<close> the second
  passing code, and \<open>f\<close> the first failing code after \<open>q\<close>, so that \<open>f\<close> is the first
  failing probe that finds both \<open>code_min\<close> and \<open>code_max\<close> set (\<open>code_min = p\<close>,
  \<open>code_max = f - 1\<close>). Then the scanner probes the codes \<open>0, \<dots>, f\<close> and no other,
  programs \<open>floor ((code_min + code_max) / 2)\<close> and returns 0. The loop ends with
  \<open>code_min = -1\<close> and \<open>code_max = -1\<close> exactly when every code of the range fails, and
  then the scanner has probed the whole range, programs phase code 0 and returns
  \<open>-EIO\<close>. With \<open>MAX_PHASE_CODE = 5\<close> and the codes 2, 3, 4 passing, it probes
  \<open>0, \<dots>, 5\<close> and programs 3.
\<close>

theorem phase_first_complete_window:
  "(0 \<le> p \<and> p < q \<and> q < f \<and> f \<le> MAX_PHASE_CODE c
      \<and> (\<forall>k. 0 \<le> k \<and> k < p \<longrightarrow> tune k \<noteq> 0) \<and> tune p = 0
      \<and> (\<forall>k. p < k \<and> k < q \<longrightarrow> tune k \<noteq> 0)
      \<and> (\<forall>k. q \<le> k \<and> k < f \<longrightarrow> tune k = 0) \<and> tune f \<noteq> 0
    \<longrightarrow> phase_loop c tune 0 pscan_init =
          \<lparr>code_min = p, code_max = f - 1, ptrace = phase_probes tune 0 f\<rparr>
      \<and> phase_code_tuning c tune =
          \<lparr>status = Some 0,
           events = phase_probes tune 0 f @ [PrInfo ((p + (f - 1)) div 2)]
                    @ set_phase ((p + (f - 1)) div 2)\<rparr>)
   \<and> ((code_min (phase_loop c tune 0 pscan_init) = -1
        \<and> code_max (phase_loop c tune 0 pscan_init) = -1)
       = (\<forall>k. 0 \<le> k \<and> k \<le> MAX_PHASE_CODE c \<longrightarrow> tune k \<noteq> 0))
   \<and> ((\<forall>k. 0 \<le> k \<and> k \<le> MAX_PHASE_CODE c \<longrightarrow> tune k \<noteq> 0)
      \<longrightarrow> phase_code_tuning c tune =
          \<lparr>status = Some (- EIO c),
           events = phase_probes tune 0 (MAX_PHASE_CODE c) @ [PrErr] @ set_phase 0\<rparr>)
   \<and> phase_code_tuning (example_macros 7 5) (passing 2 4) =
          \<lparr>status = Some 0,
           events = phase_probes (passing 2 4) 0 5 @ [PrInfo 3] @ set_phase 3\<rparr>"
proof (intro conjI impI)
  assume h: "0 \<le> p \<and> p < q \<and> q < f \<and> f \<le> MAX_PHASE_CODE c
      \<and> (\<forall>k. 0 \<le> k \<and> k < p \<longrightarrow> tune k \<noteq> 0) \<and> tune p = 0
      \<and> (\<forall>k. p < k \<and> k < q \<longrightarrow> tune k \<noteq> 0)
      \<and> (\<forall>k. q \<le> k \<and> k < f \<longrightarrow> tune k = 0) \<and> tune f \<noteq> 0"
  then show loop: "phase_loop c tune 0 pscan_init =
          \<lparr>code_min = p, code_max = f - 1, ptrace = phase_probes tune 0 f\<rparr>"
    using phase_first_window_loop [of p q f c tune] by blast
  have "(p + (f - 1)) sdiv 2 = (p + (f - 1)) div 2"
    using h by (simp add: sdiv_2_nonneg)
  then show "phase_code_tuning c tune =
          \<lparr>status = Some 0,
           events = phase_probes tune 0 f @ [PrInfo ((p + (f - 1)) div 2)]
                    @ set_phase ((p + (f - 1)) div 2)\<rparr>"
    using phase_tuning_found [OF loop] h by simp
next
  show "(code_min (phase_loop c tune 0 pscan_init) = -1
        \<and> code_max (phase_loop c tune 0 pscan_init) = -1)
       = (\<forall>k. 0 \<le> k \<and> k \<le> MAX_PHASE_CODE c \<longrightarrow> tune k \<noteq> 0)"
    using phase_tuning_all_fail [of c tune] phase_pass_sets_min [of 0 _ c tune pscan_init]
    by auto
next
  assume "\<forall>k. 0 \<le> k \<and> k \<le> MAX_PHASE_CODE c \<longrightarrow> tune k \<noteq> 0"
  then show "phase_code_tuning c tune =
          \<lparr>status = Some (- EIO c),
           events = phase_probes tune 0 (MAX_PHASE_CODE c) @ [PrErr] @ set_phase 0\<rparr>"
    using phase_tuning_all_fail [of c tune]
    by (simp add: phase_code_tuning_def set_phase_def)
next
  have "phase_loop (example_macros 7 5) (passing 2 4) 0 pscan_init =
          \<lparr>code_min = 2, code_max = 5 - 1, ptrace = phase_probes (passing 2 4) 0 5\<rparr>"
    using phase_first_window_loop [of 2 3 5 "example_macros 7 5" "passing 2 4"]
    by (simp add: example_macros_def passing_def)
  from phase_tuning_found [OF this]
  show "phase_code_tuning (example_macros 7 5) (passing 2 4) =
          \<lparr>status = Some 0,
           events = phase_probes (passing 2 4) 0 5 @ [PrInfo 3] @ set_phase 3\<rparr>"
    by simp
qed

theorem phase_first_complete_window_witness:
  "phase_loop (example_macros 7 7) (\<lambda>k. if k \<in> {1, 3, 4} then 0 else - 5) 0 pscan_init =
      \<lparr>code_min = 1, code_max = 4,
       ptrace = phase_probes (\<lambda>k. if k \<in> {1, 3, 4} then 0 else - 5) 0 5\<rparr>
   \<and> phase_code_tuning (example_macros 7 7) (\<lambda>k. if k \<in> {1, 3, 4} then 0 else - 5) =
      \<lparr>status = Some 0,
       events = phase_probes (\<lambda>k. if k \<in> {1, 3, 4} then 0 else - 5) 0 5
                @ [PrInfo 2] @ set_phase 2\<rparr>
   \<and> phase_code_tuning (example_macros 7 3) (\<lambda>k. - 5) =
      \<lparr>status = Some (- 5),
       events = phase_probes (\<lambda>k. - 5) 0 3 @ [PrErr] @ set_phase 0\<rparr>"
  using phase_first_complete_window
          [of 1 3 5 "example_macros 7 7" "\<lambda>k. if k \<in> {1, 3, 4} then 0 else - 5"]
        phase_first_complete_window [of 0 0 0 "example_macros 7 3" "\<lambda>k. - 5"]
  by (simp add: example_macros_def)

subsection \<open>C3: two passing runs\<close>

text \<open>
  C3, as amended. Under an oracle whose passing codes are exactly two runs
  \<open>a1, \<dots>, b1\<close> and \<open>a2, \<dots>, b2\<close>, each of at least two codes, separated by at least
  one failing code, the later one closed by a failing code inside the range, and the
  earlier one no wider than the threshold (\<open>b1 - a1 \<le> 20\<close>), the delay scanner returns 0
  and programs the midpoint of the wider run (of the earlier run when the widths are
  equal). It probes the whole range, unless the later run is the wider one and wider
  than the threshold: then it stops at the failure that closes it.
\<close>

theorem delay_widest_of_two:
  assumes "0 \<le> a1" and "a1 < b1" and "b1 + 1 < a2" and "a2 < b2"
    and "b2 < PHY_DELAY_CODE_MAX c"
    and "\<forall>k. (tune k = 0) = (a1 \<le> k \<and> k \<le> b1 \<or> a2 \<le> k \<and> k \<le> b2)"
    and "b1 - a1 \<le> 20"
  shows "delay_tuning c h tune =
     \<lparr>status = Some 0,
      events = delay_probes c tune 0
                 (if b1 - a1 < b2 - a2 \<and> 20 < b2 - a2 then b2 + 1 else PHY_DELAY_CODE_MAX c)
               @ [PrInfo (if b1 - a1 < b2 - a2 then (a2 + b2) div 2 else (a1 + b1) div 2)]
               @ set_delay c (if b1 - a1 < b2 - a2 then (a2 + b2) div 2 else (a1 + b1) div 2)\<rparr>"
proof -
  let ?m = "PHY_DELAY_CODE_MAX c"
  let ?f = "delay_loop c tune 0 dscan_init"
  let ?s1 = "\<lparr>ret = Some (tune (b1 + 1)), delay = (a1 + b1) div 2, delay_min = -1,
              delay_max = -1, delay_range = b1 - a1,
              dtrace = delay_probes c tune 0 (b1 + 1)\<rparr>"
  have first: "?f = delay_loop c tune (b1 + 2) ?s1"
    unfolding dscan_init_def
    using delay_window [of 0 a1 b1 c tune None "-1" "-1" "[]"] assms by simp
  have tr: "delay_probes c tune 0 (b1 + 1) @ delay_probes c tune (b1 + 2) (b2 + 1)
            = delay_probes c tune 0 (b2 + 1)"
    using delay_probes_join [of 0 "b1 + 1" "b2 + 1" c tune] assms(1-4)
    by (simp add: add.commute)
  have second: "delay_loop c tune (b1 + 2) ?s1 =
     (if b1 - a1 < b2 - a2 then
        (if 20 < b2 - a2 then
           \<lparr>ret = Some (tune (b2 + 1)), delay = (a2 + b2) div 2, delay_min = a2,
            delay_max = b2, delay_range = b2 - a2,
            dtrace = delay_probes c tune 0 (b2 + 1)\<rparr>
         else delay_loop c tune (b2 + 2)
                \<lparr>ret = Some (tune (b2 + 1)), delay = (a2 + b2) div 2, delay_min = -1,
                 delay_max = -1, delay_range = b2 - a2,
                 dtrace = delay_probes c tune 0 (b2 + 1)\<rparr>)
      else delay_loop c tune (b2 + 2)
             \<lparr>ret = Some (tune (b2 + 1)), delay = (a1 + b1) div 2, delay_min = -1,
              delay_max = -1, delay_range = b1 - a1,
              dtrace = delay_probes c tune 0 (b2 + 1)\<rparr>)"
    using delay_window [of "b1 + 2" a2 b2 c tune "Some (tune (b1 + 1))" "(a1 + b1) div 2"
        "b1 - a1" "delay_probes c tune 0 (b1 + 1)"] assms tr
    by simp
  have rest: "\<And>r d w.
      delay (delay_loop c tune (b2 + 2)
            \<lparr>ret = r, delay = d, delay_min = -1, delay_max = -1, delay_range = w,
             dtrace = delay_probes c tune 0 (b2 + 1)\<rparr>) = d
       \<and> dtrace (delay_loop c tune (b2 + 2)
            \<lparr>ret = r, delay = d, delay_min = -1, delay_max = -1, delay_range = w,
             dtrace = delay_probes c tune 0 (b2 + 1)\<rparr>)
         = delay_probes c tune 0 ?m"
    using delay_loop_rest [of "b2 + 2" c tune] assms by (simp add: add.commute)
  have mid: "0 \<le> (a1 + b1) div 2" "0 \<le> (a2 + b2) div 2"
    using assms(1-4) by simp_all
  show ?thesis
  proof (cases "b1 - a1 < b2 - a2")
    case wider: True
    show ?thesis
    proof (cases "20 < b2 - a2")
      case True
      then have "0 \<le> delay ?f" "dtrace ?f = delay_probes c tune 0 (b2 + 1)"
        using first second wider mid by simp_all
      from delay_tuning_broke [OF this] show ?thesis
        using first second wider True by simp
    next
      case False
      then have "0 \<le> delay ?f" "dtrace ?f = delay_probes c tune 0 ?m"
        using first second wider mid rest by simp_all
      from delay_tuning_broke [OF this] show ?thesis
        using first second wider False rest by simp
    qed
  next
    case False
    then have "0 \<le> delay ?f" "dtrace ?f = delay_probes c tune 0 ?m"
      using first second mid rest by simp_all
    from delay_tuning_broke [OF this] show ?thesis
      using first second False rest by simp
  qed
qed

theorem delay_widest_of_two_witness:
  "delay_tuning (example_macros 12 5) example_host
     (\<lambda>k. if 1 \<le> k \<and> k \<le> 2 \<or> 4 \<le> k \<and> k \<le> 7 then 0 else - 5) =
     \<lparr>status = Some 0,
      events = delay_probes (example_macros 12 5)
                 (\<lambda>k. if 1 \<le> k \<and> k \<le> 2 \<or> 4 \<le> k \<and> k \<le> 7 then 0 else - 5) 0 12
               @ [PrInfo 5] @ set_delay (example_macros 12 5) 5\<rparr>"
  using delay_widest_of_two [of 1 2 4 7 "example_macros 12 5"
      "\<lambda>k. if 1 \<le> k \<and> k \<le> 2 \<or> 4 \<le> k \<and> k \<le> 7 then 0 else - 5" example_host]
  by (simp add: example_macros_def)

text \<open>
  C3 as stated fails by the early exit: with codes \<open>0, \<dots>, 52\<close>, a first run
  \<open>0, \<dots>, 21\<close> (width 21) and a second, wider run \<open>23, \<dots>, 50\<close> (width 27), the scan
  stops at code 22, the failure that closes the first run, and programs its midpoint 10;
  the wider run is never probed.
\<close>

theorem delay_widest_early_exit_counterexample:
  "delay_tuning (example_macros 52 5) example_host
     (\<lambda>k. if 0 \<le> k \<and> k \<le> 21 \<or> 23 \<le> k \<and> k \<le> 50 then 0 else - 5) =
     \<lparr>status = Some 0,
      events = delay_probes (example_macros 52 5)
                 (\<lambda>k. if 0 \<le> k \<and> k \<le> 21 \<or> 23 \<le> k \<and> k \<le> 50 then 0 else - 5) 0 22
               @ [PrInfo 10] @ set_delay (example_macros 52 5) 10\<rparr>
   \<and> (21 :: int) - 0 < 50 - 23 \<and> (23 + 50) div 2 \<noteq> (10 :: int)"
  by code_simp

subsection \<open>C4: the scan window after a failing probe\<close>

text \<open>
  C4 does not hold of the code. A failing probe resets \<open>delay_min\<close> and \<open>delay_max\<close>
  only when both are set; when only \<open>delay_min\<close> is set it is kept, and the phase scanner
  never resets its window. With codes \<open>0, \<dots>, 7\<close> and exactly the codes 1, 3 and 4
  passing, the failing probe at code 2 leaves \<open>delay_min = 1\<close> (respectively
  \<open>code_min = 1\<close>) in place, the window recorded at the failure at code 5 is \<open>1, \<dots>, 4\<close>,
  and both scanners program \<open>(1 + 4) / 2 = 2\<close>, a code at which the tuning command
  failed.
\<close>

theorem stale_window_spans_failure:
  "delay_tuning (example_macros 7 7) example_host (\<lambda>k. if k \<in> {1, 3, 4} then 0 else - 5) =
     \<lparr>status = Some 0,
      events = delay_probes (example_macros 7 7) (\<lambda>k. if k \<in> {1, 3, 4} then 0 else - 5) 0 7
               @ [PrInfo 2] @ set_delay (example_macros 7 7) 2\<rparr>
   \<and> delay_body (example_macros 7 7) (\<lambda>k. if k \<in> {1, 3, 4} then 0 else - 5) 2
        \<lparr>ret = Some 0, delay = -1, delay_min = 1, delay_max = -1, delay_range = -1,
         dtrace = []\<rparr>
     = (Continue,
        \<lparr>ret = Some (- 5), delay = -1, delay_min = 1, delay_max = -1, delay_range = -1,
         dtrace = delay_probe (example_macros 7 7)
                    (\<lambda>k. if k \<in> {1, 3, 4} then 0 else - 5) 2\<rparr>)
   \<and> phase_code_tuning (example_macros 7 7) (\<lambda>k. if k \<in> {1, 3, 4} then 0 else - 5) =
     \<lparr>status = Some 0,
      events = phase_probes (\<lambda>k. if k \<in> {1, 3, 4} then 0 else - 5) 0 5
               @ [PrInfo 2] @ set_phase 2\<rparr>
   \<and> phase_body (\<lambda>k. if k \<in> {1, 3, 4} then 0 else - 5) 2
        \<lparr>code_min = 1, code_max = -1, ptrace = []\<rparr>
     = (Continue,
        \<lparr>code_min = 1, code_max = -1,
         ptrace = phase_probe (\<lambda>k. if k \<in> {1, 3, 4} then 0 else - 5) 2\<rparr>)"
  by code_simp

subsection \<open>C5: the orchestrator after a failed delay scan\<close>

text \<open>
  C5 does not hold of the code. The delay scanner's failure path logs
  \<^verbatim>\<open>delay code tuning failed!\<close>, programs the fallback code and then returns \<open>ret\<close>, the
  result of the last tuning command, where the phase scanner's failure path returns
  \<open>-EIO\<close>. The orchestrator stops only on a negative status. With software tuning
  enabled, delay codes \<open>0, \<dots>, 3\<close> and every tuning command of the delay scan passing,
  the passing run is never closed, no candidate is recorded, the delay scan fails and
  returns 0, and the orchestrator goes on to the phase scan: with phase codes
  \<open>0, \<dots>, 5\<close> and the codes 2, 3, 4 passing, six more tuning commands are issued after
  the four of the delay scan, phase 3 is programmed and the orchestrator returns 0.
\<close>

theorem failed_delay_scan_runs_phase_scan:
  "delay (delay_loop (example_macros 3 5) (\<lambda>k. 0) 0 dscan_init) = -1
   \<and> delay_tuning (example_macros 3 5) example_host (\<lambda>k. 0) =
     \<lparr>status = Some 0,
      events = delay_probes (example_macros 3 5) (\<lambda>k. 0) 0 3 @ [PrErr]
               @ set_delay (example_macros 3 5) 85\<rparr>
   \<and> executing_tuning (example_macros 3 5) example_host (\<lambda>k. 0) (passing 2 4) =
     \<lparr>status = Some 0,
      events = sw_tuning_setup (example_macros 3 5) example_host
               @ delay_probes (example_macros 3 5) (\<lambda>k. 0) 0 3 @ [PrErr]
               @ set_delay (example_macros 3 5) 85
               @ phase_probes (passing 2 4) 0 5 @ [PrInfo 3] @ set_phase 3\<rparr>
   \<and> probe_count (events (delay_tuning (example_macros 3 5) example_host (\<lambda>k. 0))) = 4
   \<and> probe_count (events (executing_tuning (example_macros 3 5) example_host (\<lambda>k. 0)
                            (passing 2 4))) = 10"
  by code_simp

subsection \<open>C6: every tuning command fails\<close>

text \<open>
  C6. Under oracles whose tuning commands all fail, the delay scanner probes the whole
  range, logs the failure, programs the configured fallback code \<open>delay_code\<close> and
  returns the nonzero result of the last tuning command; the phase scanner probes the
  whole range, logs the failure, programs phase code 0 and returns \<open>-EIO\<close>, which is
  nonzero. The delay range is taken to be non-empty and \<open>EIO\<close> to be a positive errno.
\<close>

theorem all_fail_fallback:
  assumes "0 \<le> PHY_DELAY_CODE_MAX c" and "0 < EIO c"
    and "\<forall>k. dtune k \<noteq> 0" and "\<forall>k. ptune k \<noteq> 0"
  shows "delay_tuning c h dtune =
           \<lparr>status = Some (dtune (PHY_DELAY_CODE_MAX c)),
            events = delay_probes c dtune 0 (PHY_DELAY_CODE_MAX c) @ [PrErr]
                     @ set_delay c (delay_code h)\<rparr>
         \<and> dtune (PHY_DELAY_CODE_MAX c) \<noteq> 0
         \<and> phase_code_tuning c ptune =
           \<lparr>status = Some (- EIO c),
            events = phase_probes ptune 0 (MAX_PHASE_CODE c) @ [PrErr] @ set_phase 0\<rparr>
         \<and> - EIO c \<noteq> 0"
  using delay_tuning_all_fail [of c dtune h] phase_tuning_all_fail [of c ptune] assms
  by (simp add: phase_code_tuning_def set_phase_def)

theorem all_fail_fallback_witness:
  "delay_tuning (example_macros 7 5) example_host (\<lambda>k. - 5) =
           \<lparr>status = Some (- 5),
            events = delay_probes (example_macros 7 5) (\<lambda>k. - 5) 0 7 @ [PrErr]
                     @ set_delay (example_macros 7 5) 85\<rparr>
   \<and> phase_code_tuning (example_macros 7 5) (\<lambda>k. - 5) =
           \<lparr>status = Some (- 5),
            events = phase_probes (\<lambda>k. - 5) 0 5 @ [PrErr] @ set_phase 0\<rparr>"
  using all_fail_fallback [of "example_macros 7 5" "\<lambda>k. - 5" "\<lambda>k. - 5" example_host]
  by (simp add: example_macros_def example_host_def)

subsection \<open>C7: early exit\<close>

text \<open>
  C7. Let the oracle contain a passing run \<open>a, \<dots>, b\<close> wider than the threshold
  (\<open>b - a > 20\<close>) whose closing failure \<open>b + 1\<close> lies inside the range; the oracle is
  arbitrary elsewhere. Then the delay scanner runs the loop for the codes \<open>0, \<dots>, k\<close>
  only, where \<open>k\<close> is a failing code and either \<open>k = b + 1\<close>, the scan stops at the
  failure closing the run, or \<open>k < a\<close>, the scan had already stopped before the run; it
  commits a delay code and returns 0. No code beyond \<open>b + 1\<close> is probed. When no code
  before the run passes, the scan stops exactly at \<open>b + 1\<close> and programs
  \<open>floor ((a + b) / 2)\<close>.
\<close>

theorem delay_early_exit:
  assumes "0 \<le> a" and "20 < b - a" and "b < PHY_DELAY_CODE_MAX c"
    and "\<forall>k. a \<le> k \<and> k \<le> b \<longrightarrow> tune k = 0" and "tune (b + 1) \<noteq> 0"
  shows "(\<exists>k d. 0 \<le> k \<and> (k < a \<or> k = b + 1) \<and> tune k \<noteq> 0
           \<and> delay_tuning c h tune =
               \<lparr>status = Some 0,
                events = delay_probes c tune 0 k @ [PrInfo d] @ set_delay c d\<rparr>)
       \<and> ((\<forall>k. 0 \<le> k \<and> k < a \<longrightarrow> tune k \<noteq> 0)
          \<longrightarrow> delay_tuning c h tune =
               \<lparr>status = Some 0,
                events = delay_probes c tune 0 (b + 1) @ [PrInfo ((a + b) div 2)]
                         @ set_delay c ((a + b) div 2)\<rparr>)"
proof (intro conjI impI)
  assume "\<forall>k. 0 \<le> k \<and> k < a \<longrightarrow> tune k \<noteq> 0"
  then have "delay_loop c tune 0 dscan_init =
        \<lparr>ret = Some (tune (b + 1)), delay = (a + b) div 2, delay_min = a, delay_max = b,
         delay_range = b - a, dtrace = delay_probes c tune 0 (b + 1)\<rparr>"
    unfolding dscan_init_def
    using delay_window [of 0 a b c tune None "-1" "-1" "[]"] assms by simp
  moreover have "0 \<le> (a + b) div 2"
    using assms(1,2) by simp
  ultimately have "0 \<le> delay (delay_loop c tune 0 dscan_init)"
      "dtrace (delay_loop c tune 0 dscan_init) = delay_probes c tune 0 (b + 1)"
      "delay (delay_loop c tune 0 dscan_init) = (a + b) div 2"
    by simp_all
  then show "delay_tuning c h tune =
               \<lparr>status = Some 0,
                events = delay_probes c tune 0 (b + 1) @ [PrInfo ((a + b) div 2)]
                         @ set_delay c ((a + b) div 2)\<rparr>"
    using delay_tuning_broke [of c tune "delay_probes c tune 0 (b + 1)" h] by simp
next
  let ?f = "delay_loop c tune 0 dscan_init"
  have "(\<exists>k. 0 \<le> k \<and> k < a \<and> tune k \<noteq> 0 \<and> 0 \<le> delay ?f
              \<and> dtrace ?f = dtrace dscan_init @ delay_probes c tune 0 k
              \<and> ret ?f = Some (tune k))
         \<or> (\<exists>s'. ?f = delay_loop c tune a s' \<and> dscan_ok a s'
                \<and> dtrace s' = dtrace dscan_init @ delay_probes c tune 0 (a - 1)
                \<and> ret s' = (if 0 < a then Some (tune (a - 1)) else ret dscan_init))"
    using delay_loop_reach [of 0 a c dscan_init tune] assms(1-3) dscan_ok_init by simp
  then show "\<exists>k d. 0 \<le> k \<and> (k < a \<or> k = b + 1) \<and> tune k \<noteq> 0
           \<and> delay_tuning c h tune =
               \<lparr>status = Some 0,
                events = delay_probes c tune 0 k @ [PrInfo d] @ set_delay c d\<rparr>"
  proof
    assume "\<exists>k. 0 \<le> k \<and> k < a \<and> tune k \<noteq> 0 \<and> 0 \<le> delay ?f
              \<and> dtrace ?f = dtrace dscan_init @ delay_probes c tune 0 k
              \<and> ret ?f = Some (tune k)"
    then obtain k where k: "0 \<le> k" "k < a" "tune k \<noteq> 0" "0 \<le> delay ?f"
        "dtrace ?f = delay_probes c tune 0 k"
      by (auto simp add: dscan_init_def)
    have "delay_tuning c h tune =
            \<lparr>status = Some 0,
             events = delay_probes c tune 0 k @ [PrInfo (delay ?f)] @ set_delay c (delay ?f)\<rparr>"
      using delay_tuning_broke [OF k(4) k(5)] .
    with k show ?thesis by blast
  next
    assume "\<exists>s'. ?f = delay_loop c tune a s' \<and> dscan_ok a s'
                \<and> dtrace s' = dtrace dscan_init @ delay_probes c tune 0 (a - 1)
                \<and> ret s' = (if 0 < a then Some (tune (a - 1)) else ret dscan_init)"
    then obtain s' where s': "?f = delay_loop c tune a s'" "dscan_ok a s'"
        "dtrace s' = delay_probes c tune 0 (a - 1)"
      by (auto simp add: dscan_init_def)
    define m where "m = (if delay_min s' = -1 then a else delay_min s')"
    let ?s2 = "s'\<lparr>ret := Some 0, delay_min := m, delay_max := b,
                  dtrace := delay_probes c tune 0 b\<rparr>"
    have m: "0 \<le> m" "m \<le> a"
      using s'(2) assms(1) by (auto simp add: m_def dscan_ok_def)
    have run: "delay_loop c tune a s' = delay_loop c tune (b + 1) ?s2"
      using delay_loop_passes [of a "b + 1" c tune s'] assms s'(3)
        delay_probes_append [of 0 a b c tune]
      by (simp add: m_def)
    have tr: "delay_probes c tune 0 b @ delay_probe c tune (b + 1)
              = delay_probes c tune 0 (b + 1)"
      using delay_probes_snoc [of 0 b c tune] assms(1,2) by simp
    have "delay_range s' \<le> 20"
      using s'(2) by (simp add: dscan_ok_def)
    then have close: "delay_loop c tune (b + 1) ?s2 =
        ?s2\<lparr>ret := Some (tune (b + 1)), dtrace := delay_probes c tune 0 (b + 1),
            delay_range := b - m, delay := (m + b) sdiv 2\<rparr>"
      using delay_loop_close [of "b + 1" c tune ?s2] assms m tr
      by (simp add: Let_def)
    have fin: "0 \<le> delay ?f" "dtrace ?f = delay_probes c tune 0 (b + 1)"
      using s'(1) run close m assms(1,2) by (simp_all add: sdiv_2_nonneg)
    have "delay_tuning c h tune =
            \<lparr>status = Some 0,
             events = delay_probes c tune 0 (b + 1) @ [PrInfo (delay ?f)]
                      @ set_delay c (delay ?f)\<rparr>"
      using delay_tuning_broke [OF fin] .
    moreover have "0 \<le> b + 1"
      using assms(1,2) by simp
    ultimately show ?thesis
      using assms(5) by blast
  qed
qed

theorem delay_early_exit_witness:
  "delay_tuning (example_macros 40 5) example_host
     (\<lambda>k. if 2 \<le> k \<and> k \<le> 24 \<or> 30 \<le> k then 0 else - 5) =
     \<lparr>status = Some 0,
      events = delay_probes (example_macros 40 5)
                 (\<lambda>k. if 2 \<le> k \<and> k \<le> 24 \<or> 30 \<le> k then 0 else - 5) 0 25
               @ [PrInfo 13] @ set_delay (example_macros 40 5) 13\<rparr>"
  using delay_early_exit [of 2 24 "example_macros 40 5"
      "\<lambda>k. if 2 \<le> k \<and> k \<le> 24 \<or> 30 \<le> k then 0 else - 5" example_host]
  by (simp add: example_macros_def)

subsection \<open>C8: tuning registers are written with the card clock gated\<close>

text \<open>
  C8. In every run of the orchestrator, for every configuration and all results of the
  tuning commands, on the static path as on the software-tuning path with both scans and
  their final programming: every write to \<^verbatim>\<open>PHY_SDCLKDL_CNFG_R\<close>, \<^verbatim>\<open>PHY_SDCLKDL_DC_R\<close> or
  \<^verbatim>\<open>VENDOR_AT_SATA_R\<close> comes after a call that disables the card clock with no enabling
  call in between, and the trace ends with the card clock enabled again. The reset
  callback is called with \<^verbatim>\<open>SDHCI_RESET_CMD | SDHCI_RESET_DATA\<close>, never with
  \<^verbatim>\<open>SDHCI_RESET_ALL\<close>, the only mask for which the driver's reset reprograms the PHY.
\<close>

theorem tuning_writes_clock_gated:
  "clock_gated (events (executing_tuning c h dtune ptune))"
  unfolding executing_tuning_events
  by (auto intro!: clock_gated_append
      simp add: clock_gated_set_phase clock_gated_empty clock_gated_setup delay_tuning_gated
        phase_tuning_gated
      split: option.splits)

theorem tuning_writes_clock_gated_witness:
  "clock_gated (events (executing_tuning (example_macros 7 5) example_host
                          (passing 2 5) (passing 2 4)))
   \<and> clock_gated (events (executing_tuning (example_macros 7 5)
                            (example_host\<lparr>enable_sw_tuning := 0, phase_code := 3\<rparr>)
                            (passing 2 5) (passing 2 4)))
   \<and> \<not> clock_gated [WriteW VENDOR_AT_SATA_R 0]
   \<and> \<not> clock_gated [DisableCardClk, EnableCardClk, WriteB PHY_SDCLKDL_DC_R 1]
   \<and> \<not> clock_gated [DisableCardClk, WriteB PHY_SDCLKDL_DC_R 1]"
  using tuning_writes_clock_gated [of "example_macros 7 5" example_host "passing 2 5" "passing 2 4"]
    tuning_writes_clock_gated [of "example_macros 7 5"
      "example_host\<lparr>enable_sw_tuning := 0, phase_code := 3\<rparr>" "passing 2 5" "passing 2 4"]
  by (simp add: clock_gated_def)

subsection \<open>C9: the phase scanner with an unset \<open>code_max\<close>\<close>

text \<open>
  C9, as amended. When exactly one phase code \<open>p\<close> of the range passes, the phase
  scanner probes the whole range, returns 0 and programs \<open>(code_min + code_max) / 2\<close>
  with \<open>code_max\<close> still the sentinel \<open>-1\<close>, that is \<open>(p - 1) / 2\<close> in C's truncating
  division: 0 for \<open>p = 0\<close>, and for \<open>p \<ge> 1\<close> a code whose tuning command failed.
  When the first passing code \<open>p\<close> is followed, after any number of failing codes, by a
  run of passing codes \<open>q, \<dots>, MAX_PHASE_CODE\<close> that reaches the end of the range, no
  failing probe sees both variables set either, and the scanner returns 0 and programs
  \<open>floor ((p + MAX_PHASE_CODE) / 2)\<close>: \<open>code_max\<close> is then the last code, not the
  sentinel. In all cases the scanner returns 0 as soon as one code of the range passes.
\<close>

theorem phase_sentinel_midpoint:
  "(0 \<le> p \<and> p \<le> MAX_PHASE_CODE c \<and> (\<forall>k. (tune k = 0) = (k = p))
      \<longrightarrow> phase_code_tuning c tune =
            \<lparr>status = Some 0,
             events = phase_probes tune 0 (MAX_PHASE_CODE c) @ [PrInfo ((p + - 1) sdiv 2)]
                      @ set_phase ((p + - 1) sdiv 2)\<rparr>
          \<and> (p + - 1) sdiv 2 = (if p = 0 then 0 else (p - 1) div 2)
          \<and> (1 \<le> p \<longrightarrow> tune ((p + - 1) sdiv 2) \<noteq> 0))
   \<and> (0 \<le> p \<and> p < q \<and> q \<le> MAX_PHASE_CODE c
        \<and> (\<forall>k. 0 \<le> k \<and> k < p \<longrightarrow> tune k \<noteq> 0) \<and> tune p = 0
        \<and> (\<forall>k. p < k \<and> k < q \<longrightarrow> tune k \<noteq> 0)
        \<and> (\<forall>k. q \<le> k \<and> k \<le> MAX_PHASE_CODE c \<longrightarrow> tune k = 0)
      \<longrightarrow> phase_code_tuning c tune =
            \<lparr>status = Some 0,
             events = phase_probes tune 0 (MAX_PHASE_CODE c)
                      @ [PrInfo ((p + MAX_PHASE_CODE c) div 2)]
                      @ set_phase ((p + MAX_PHASE_CODE c) div 2)\<rparr>)
   \<and> ((\<exists>k. 0 \<le> k \<and> k \<le> MAX_PHASE_CODE c \<and> tune k = 0)
      \<longrightarrow> status (phase_code_tuning c tune) = Some 0)"
proof (intro conjI impI)
  assume h: "0 \<le> p \<and> p \<le> MAX_PHASE_CODE c \<and> (\<forall>k. (tune k = 0) = (k = p))"
  then have loop: "phase_loop c tune 0 pscan_init =
           \<lparr>code_min = p, code_max = -1, ptrace = phase_probes tune 0 (MAX_PHASE_CODE c)\<rparr>"
    using phase_single_pass_loop [of p c tune] by blast
  show "phase_code_tuning c tune =
            \<lparr>status = Some 0,
             events = phase_probes tune 0 (MAX_PHASE_CODE c) @ [PrInfo ((p + - 1) sdiv 2)]
                      @ set_phase ((p + - 1) sdiv 2)\<rparr>"
    using phase_tuning_found [OF loop] h by simp
  show sd: "(p + - 1) sdiv 2 = (if p = 0 then 0 else (p - 1) div 2)"
    using h sdiv_2_nonneg [of "p - 1"] by (auto simp add: signed_divide_int_def)
  assume "1 \<le> p"
  then have "(p + - 1) sdiv 2 \<noteq> p"
    using sd by auto
  then show "tune ((p + - 1) sdiv 2) \<noteq> 0"
    using h by simp
next
  assume h: "0 \<le> p \<and> p < q \<and> q \<le> MAX_PHASE_CODE c
        \<and> (\<forall>k. 0 \<le> k \<and> k < p \<longrightarrow> tune k \<noteq> 0) \<and> tune p = 0
        \<and> (\<forall>k. p < k \<and> k < q \<longrightarrow> tune k \<noteq> 0)
        \<and> (\<forall>k. q \<le> k \<and> k \<le> MAX_PHASE_CODE c \<longrightarrow> tune k = 0)"
  then have loop: "phase_loop c tune 0 pscan_init =
           \<lparr>code_min = p, code_max = MAX_PHASE_CODE c,
            ptrace = phase_probes tune 0 (MAX_PHASE_CODE c)\<rparr>"
    using phase_run_to_end_loop [of p q c tune] by blast
  have "(p + MAX_PHASE_CODE c) sdiv 2 = (p + MAX_PHASE_CODE c) div 2"
    using h by (simp add: sdiv_2_nonneg)
  then show "phase_code_tuning c tune =
            \<lparr>status = Some 0,
             events = phase_probes tune 0 (MAX_PHASE_CODE c)
                      @ [PrInfo ((p + MAX_PHASE_CODE c) div 2)]
                      @ set_phase ((p + MAX_PHASE_CODE c) div 2)\<rparr>"
    using phase_tuning_found [OF loop] h by simp
next
  assume "\<exists>k. 0 \<le> k \<and> k \<le> MAX_PHASE_CODE c \<and> tune k = 0"
  then have "code_min (phase_loop c tune 0 pscan_init) \<noteq> -1"
    using phase_pass_sets_min [of 0 _ c tune pscan_init] by auto
  then show "status (phase_code_tuning c tune) = Some 0"
    by (simp add: phase_code_tuning_def Let_def)
qed

theorem phase_sentinel_midpoint_witness:
  "phase_code_tuning (example_macros 7 5) (passing 3 3) =
     \<lparr>status = Some 0,
      events = phase_probes (passing 3 3) 0 5 @ [PrInfo 1] @ set_phase 1\<rparr>
   \<and> passing 3 3 1 \<noteq> 0
   \<and> phase_code_tuning (example_macros 7 5) (passing 0 0) =
     \<lparr>status = Some 0,
      events = phase_probes (passing 0 0) 0 5 @ [PrInfo 0] @ set_phase 0\<rparr>
   \<and> phase_code_tuning (example_macros 7 5) (\<lambda>k. if k \<in> {1, 4, 5} then 0 else - 5) =
     \<lparr>status = Some 0,
      events = phase_probes (\<lambda>k. if k \<in> {1, 4, 5} then 0 else - 5) 0 5
               @ [PrInfo 3] @ set_phase 3\<rparr>"
proof -
  let ?c = "example_macros 7 5"
  let ?t = "\<lambda>k::int. if k \<in> {1, 4, 5} then 0 else - 5 :: int"
  have m: "MAX_PHASE_CODE ?c = 5"
    by (simp add: example_macros_def)
  have h3: "0 \<le> (3::int) \<and> 3 \<le> MAX_PHASE_CODE ?c \<and> (\<forall>k. (passing 3 3 k = 0) = (k = 3))"
    by (auto simp add: m passing_def)
  have h0: "0 \<le> (0::int) \<and> 0 \<le> MAX_PHASE_CODE ?c \<and> (\<forall>k. (passing 0 0 k = 0) = (k = 0))"
    by (auto simp add: m passing_def)
  have ht: "0 \<le> (1::int) \<and> 1 < (4::int) \<and> 4 \<le> MAX_PHASE_CODE ?c
        \<and> (\<forall>k. 0 \<le> k \<and> k < 1 \<longrightarrow> ?t k \<noteq> 0) \<and> ?t 1 = 0
        \<and> (\<forall>k. 1 < k \<and> k < 4 \<longrightarrow> ?t k \<noteq> 0)
        \<and> (\<forall>k. 4 \<le> k \<and> k \<le> MAX_PHASE_CODE ?c \<longrightarrow> ?t k = 0)"
    by (auto simp add: m)
  have a: "phase_code_tuning ?c (passing 3 3) =
     \<lparr>status = Some 0,
      events = phase_probes (passing 3 3) 0 5 @ [PrInfo 1] @ set_phase 1\<rparr>"
    using phase_sentinel_midpoint [of 3 ?c "passing 3 3" 0, THEN conjunct1, rule_format, OF h3]
    by (simp add: m)
  have b: "phase_code_tuning ?c (passing 0 0) =
     \<lparr>status = Some 0,
      events = phase_probes (passing 0 0) 0 5 @ [PrInfo 0] @ set_phase 0\<rparr>"
    using phase_sentinel_midpoint [of 0 ?c "passing 0 0" 0, THEN conjunct1, rule_format, OF h0]
    by (simp add: m)
  have c: "phase_code_tuning ?c ?t =
     \<lparr>status = Some 0, events = phase_probes ?t 0 5 @ [PrInfo 3] @ set_phase 3\<rparr>"
    using phase_sentinel_midpoint [of 1 ?c ?t 4, THEN conjunct2, THEN conjunct1, rule_format,
        OF ht]
    by (simp add: m)
  show ?thesis
    using a b c by (simp add: passing_def)
qed

text \<open>
  C9 as stated fails when the passing run has two or more codes and reaches the end of
  the range: with \<open>MAX_PHASE_CODE = 5\<close> and the codes 4 and 5 passing, at least one code
  passes and no failing probe sees both variables set, yet \<open>code_max\<close> is 5, not the
  sentinel, and the scanner programs \<open>(4 + 5) / 2 = 4\<close> rather than \<open>(4 - 1) / 2 = 1\<close>.
\<close>

theorem phase_sentinel_counterexample:
  "phase_code_tuning (example_macros 7 5) (passing 4 5) =
     \<lparr>status = Some 0,
      events = phase_probes (passing 4 5) 0 5 @ [PrInfo 4] @ set_phase 4\<rparr>
   \<and> code_max (phase_loop (example_macros 7 5) (passing 4 5) 0 pscan_init) = 5
   \<and> (4 + - 1) sdiv 2 \<noteq> (4 :: int)"
  by code_simp

subsection \<open>C10: a passing run that is never closed\<close>

text \<open>
  C10. With software tuning enabled and a non-empty delay range: whenever the tuning
  command at \<open>PHY_DELAY_CODE_MAX\<close> passes and the sweep has recorded no candidate
  (\<open>delay\<close> is still \<open>-1\<close> after the loop), the delay scanner has probed the whole range,
  logs the failure, programs the fallback code \<open>delay_code\<close> and returns 0, the result
  of the last tuning command; the orchestrator therefore goes on to the phase scan and
  returns that scan's status. This is the case, in particular, when the failing codes
  \<open>0, \<dots>, a - 1\<close> are followed by a passing run \<open>a, \<dots>, PHY_DELAY_CODE_MAX\<close> that no
  failure closes.
\<close>

theorem delay_run_to_end_returns_zero:
  "(enable_sw_tuning h \<noteq> 0 \<and> 0 \<le> PHY_DELAY_CODE_MAX c
      \<and> dtune (PHY_DELAY_CODE_MAX c) = 0 \<and> delay (delay_loop c dtune 0 dscan_init) = -1
    \<longrightarrow> delay_tuning c h dtune =
           \<lparr>status = Some 0,
            events = delay_probes c dtune 0 (PHY_DELAY_CODE_MAX c) @ [PrErr]
                     @ set_delay c (delay_code h)\<rparr>
        \<and> executing_tuning c h dtune ptune =
           \<lparr>status = map_option (\<lambda>r. if r < 0 then r else 0)
                       (status (phase_code_tuning c ptune)),
            events = sw_tuning_setup c h @ events (delay_tuning c h dtune)
                     @ events (phase_code_tuning c ptune)\<rparr>)
   \<and> (0 \<le> a \<and> a \<le> PHY_DELAY_CODE_MAX c
        \<and> (\<forall>k. 0 \<le> k \<and> k < a \<longrightarrow> dtune k \<noteq> 0)
        \<and> (\<forall>k. a \<le> k \<and> k \<le> PHY_DELAY_CODE_MAX c \<longrightarrow> dtune k = 0)
      \<longrightarrow> dtune (PHY_DELAY_CODE_MAX c) = 0 \<and> delay (delay_loop c dtune 0 dscan_init) = -1)"
proof (intro conjI impI)
  assume h: "enable_sw_tuning h \<noteq> 0 \<and> 0 \<le> PHY_DELAY_CODE_MAX c
      \<and> dtune (PHY_DELAY_CODE_MAX c) = 0 \<and> delay (delay_loop c dtune 0 dscan_init) = -1"
  then have "ret (delay_loop c dtune 0 dscan_init) = Some (dtune (PHY_DELAY_CODE_MAX c))
         \<and> dtrace (delay_loop c dtune 0 dscan_init)
           = delay_probes c dtune 0 (PHY_DELAY_CODE_MAX c)"
    using delay_loop_no_candidate [of c dtune] by blast
  with h show d: "delay_tuning c h dtune =
           \<lparr>status = Some 0,
            events = delay_probes c dtune 0 (PHY_DELAY_CODE_MAX c) @ [PrErr]
                     @ set_delay c (delay_code h)\<rparr>"
    by (simp add: delay_tuning_def set_delay_def)
  have "status (delay_tuning c h dtune) = Some 0"
    using d by simp
  with h show "executing_tuning c h dtune ptune =
           \<lparr>status = map_option (\<lambda>r. if r < 0 then r else 0)
                       (status (phase_code_tuning c ptune)),
            events = sw_tuning_setup c h @ events (delay_tuning c h dtune)
                     @ events (phase_code_tuning c ptune)\<rparr>"
    by (simp add: executing_tuning_def phase_code_tuning_def Let_def)
next
  assume h: "0 \<le> a \<and> a \<le> PHY_DELAY_CODE_MAX c
        \<and> (\<forall>k. 0 \<le> k \<and> k < a \<longrightarrow> dtune k \<noteq> 0)
        \<and> (\<forall>k. a \<le> k \<and> k \<le> PHY_DELAY_CODE_MAX c \<longrightarrow> dtune k = 0)"
  then show "dtune (PHY_DELAY_CODE_MAX c) = 0"
    by simp
  show "delay (delay_loop c dtune 0 dscan_init) = -1"
    using delay_run_to_end [of a c dtune] h by blast
qed

theorem delay_run_to_end_returns_zero_witness:
  "delay_tuning (example_macros 7 5) example_host (passing 3 7) =
     \<lparr>status = Some 0,
      events = delay_probes (example_macros 7 5) (passing 3 7) 0 7 @ [PrErr]
               @ set_delay (example_macros 7 5) 85\<rparr>
   \<and> executing_tuning (example_macros 7 5) example_host (passing 3 7) (passing 2 4) =
     \<lparr>status = Some 0,
      events = sw_tuning_setup (example_macros 7 5) example_host
               @ events (delay_tuning (example_macros 7 5) example_host (passing 3 7))
               @ phase_probes (passing 2 4) 0 5 @ [PrInfo 3] @ set_phase 3\<rparr>"
proof -
  let ?c = "example_macros 7 5"
  have m: "PHY_DELAY_CODE_MAX ?c = 7"
    by (simp add: example_macros_def)
  have run: "0 \<le> (3::int) \<and> 3 \<le> PHY_DELAY_CODE_MAX ?c
        \<and> (\<forall>k. 0 \<le> k \<and> k < 3 \<longrightarrow> passing 3 7 k \<noteq> 0)
        \<and> (\<forall>k. 3 \<le> k \<and> k \<le> PHY_DELAY_CODE_MAX ?c \<longrightarrow> passing 3 7 k = 0)"
    by (simp add: m passing_def)
  have none: "passing 3 7 (PHY_DELAY_CODE_MAX ?c) = 0
              \<and> delay (delay_loop ?c (passing 3 7) 0 dscan_init) = -1"
    using delay_run_to_end_returns_zero [of example_host ?c "passing 3 7" "passing 2 4" 3,
        THEN conjunct2, rule_format, OF run] .
  have hyp: "enable_sw_tuning example_host \<noteq> 0 \<and> 0 \<le> PHY_DELAY_CODE_MAX ?c
      \<and> passing 3 7 (PHY_DELAY_CODE_MAX ?c) = 0
      \<and> delay (delay_loop ?c (passing 3 7) 0 dscan_init) = -1"
    using none by (simp add: m example_host_def)
  have ph: "phase_code_tuning ?c (passing 2 4) =
          \<lparr>status = Some 0,
           events = phase_probes (passing 2 4) 0 5 @ [PrInfo 3] @ set_phase 3\<rparr>"
    by code_simp
  show ?thesis
    using delay_run_to_end_returns_zero [of example_host ?c "passing 3 7" "passing 2 4" 3,
        THEN conjunct1, rule_format, OF hyp] ph
    by (simp add: m example_host_def)
qed

end
